theory Spec2Isabelle
  imports Complex_Main "HOL-Library.Sublist"
begin

section \<open>Data model\<close>

text \<open>
  The repository drives an external finite-element engine (the \<open>mapdl\<close> handle of the
  source). The engine is a black box: the model records the commands a function issues
  to it, in order, as a list of \<open>cmd\<close>, and takes what the engine answers (its keypoint
  table, the convergence flag, the reaction sums) as arguments. The same holds for
  numpy's \<open>argsort\<close> and for the operating system behind the worker process: their
  answers are arguments, the calls made to them are recorded. Python floats are
  modelled as \<open>real\<close>; the not-a-number sentinel of a result row gets a constructor of
  its own. Calls to \<open>logging\<close> issue no engine command and are left out.
\<close>

text \<open>A row of the \<open>N x 3\<close> coordinate array: \<open>(x, y, z)\<close>.\<close>

type_synonym point = "real \<times> real \<times> real"

definition px :: "point \<Rightarrow> real" where
  "px p = fst p"

definition py :: "point \<Rightarrow> real" where
  "py p = fst (snd p)"

definition pz :: "point \<Rightarrow> real" where
  "pz p = snd (snd p)"

datatype error = ValueError | IndexError

text \<open>The 8-tuple returned by \<open>find_bounds\<close>, in the order of its return statement.\<close>

record bounds =
  xmin :: real
  xmax :: real
  ymin :: real
  ymax :: real
  zmin :: real
  zmax :: real
  ymin_2nd :: real
  ymax_2nd :: real

section \<open>model\_utils.py: find\_bounds\<close>

text \<open>
  \<open>arr.min()\<close> and \<open>arr.max()\<close> of numpy, on a non-empty array. On an empty one numpy
  raises \<open>ValueError\<close>; \<open>find_bounds\<close> below takes that branch before any of them is
  evaluated.
\<close>

definition np_min :: "real list \<Rightarrow> real" where
  "np_min xs = Min (set xs)"

definition np_max :: "real list \<Rightarrow> real" where
  "np_max xs = Max (set xs)"

text \<open>
  \<open>find_bounds(mapdl)\<close>; the argument is the engine's answer to
  \<open>mapdl.geometry.get_keypoints().points\<close>. The first reduction,
  \<open>nodes_coords[:, 0].min()\<close>, raises \<open>ValueError\<close> on an empty table.
\<close>

definition find_bounds :: "point list \<Rightarrow> error + bounds" where
  "find_bounds nodes_coords =
     (if nodes_coords = [] then Inl ValueError
      else
        let xmin' = np_min (map px nodes_coords);
            xmax' = np_max (map px nodes_coords);
            ymin' = np_min (map py nodes_coords);
            ymin_2nd' =
              (if length (filter (\<lambda>p. py p \<noteq> ymin') nodes_coords) > 0
               then np_min (map py (filter (\<lambda>p. py p \<noteq> ymin') nodes_coords))
               else ymin');
            ymax' = np_max (map py nodes_coords);
            ymax_2nd' =
              (if length (filter (\<lambda>p. py p \<noteq> ymax') nodes_coords) > 0
               then np_max (map py (filter (\<lambda>p. py p \<noteq> ymax') nodes_coords))
               else ymax');
            zmin' = np_min (map pz nodes_coords);
            zmax' = np_max (map pz nodes_coords)
        in Inr \<lparr>xmin = xmin', xmax = xmax', ymin = ymin', ymax = ymax',
                zmin = zmin', zmax = zmax', ymin_2nd = ymin_2nd', ymax_2nd = ymax_2nd'\<rparr>)"

section \<open>Commands issued to the engine\<close>

text \<open>
  One constructor for each call form of the \<open>mapdl\<close> handle that the modelled functions
  use, with the arguments in the order the source passes them. \<open>Nsel1\<close>, \<open>Lsel1\<close> and
  \<open>Vsel1\<close> are the one-argument calls (\<open>mapdl.nsel('ALL')\<close>); \<open>Lsel_loc\<close> is
  \<open>mapdl.lsel(type_, item, comp, vmin)\<close>. \<open>Et n name kops\<close> is \<open>mapdl.et(n, name, *kops)\<close>.
  \<open>Input_strings\<close> carries the lines of the command string of \<open>load_csv\<close>, kept
  structured (\<open>K,n,x,y,z\<close> and \<open>L,a,b\<close>) rather than as text.
\<close>

datatype apdl_line =
    K nat real real real
  | L nat nat

datatype cmd =
    Slashsolu
  | Antype string
  | Allsel
  | Seltol real
  | Nsel string string string real real
  | Asel string string string real real
  | Cm string string
  | D string string real
  | Da string string real
  | Sectype nat string string
  | Secdata real real int int
  | Et nat string "int list"
  | Input_strings "apdl_line list"
  | Lsel1 string
  | Lsel_loc string string string real
  | Latt nat nat nat
  | Lesize string int
  | Lmesh string
  | Nsel1 string
  | Nummrg string
  | Endrelease
  | Al "nat list"
  | Vext nat real
  | Vsel1 string
  | Vatt nat nat
  | Vmesh string
  | Blc4 real real real real real
  | Post1
  | Set_cmd string
  | Cmsel string string
  | Fsum
  | Get string string string

section \<open>boundary\_conditions.py\<close>

text \<open>
  \<open>get_displacement(mapdl, mech_type, percent_displacement)\<close>: issues \<open>allsel\<close>, reads
  the bounds and returns the displacement. The result pairs the commands issued with
  the returned value.
\<close>

definition get_displacement :: "point list \<Rightarrow> string \<Rightarrow> real \<Rightarrow> error + (cmd list \<times> real)" where
  "get_displacement kps mech_type percent_displacement =
     (case find_bounds kps of
        Inl e \<Rightarrow> Inl e
      | Inr b \<Rightarrow>
          Inr ([Allsel],
               if mech_type = ''HERDS'' \<or> mech_type = ''KRESLING''
               then (ymax b - ymin b) * percent_displacement / 100
               else (let length' = ymax_2nd b - ymin_2nd b
                     in length' * percent_displacement / 100)))"

text \<open>
  The loop over \<open>constraints.items()\<close> shared by both selectors; a dict is an association
  list in insertion order. \<open>issue\<close> is \<open>mapdl.d\<close> or \<open>mapdl.da\<close>.
\<close>

definition apply_constraints :: "(string \<Rightarrow> string \<Rightarrow> real \<Rightarrow> cmd) \<Rightarrow> (string \<times> real) list \<Rightarrow> cmd list" where
  "apply_constraints issue constraints =
     concat (map (\<lambda>(constraint, v).
                    if constraint \<in> set [''UX'', ''UY'', ''UZ'', ''ROTX'', ''ROTY'', ''ROTZ'']
                    then [issue ''ALL'' constraint v] else [])
                 constraints)"

text \<open>
  \<open>select_and_fix_nodes(mapdl, location, y_range, z_range, x_range, constraints)\<close>.
  An absent range is \<open>None\<close>; an absent or empty \<open>constraints\<close> is the empty list (both
  skip the loop).
\<close>

definition select_and_fix_nodes ::
  "string \<Rightarrow> real \<times> real \<Rightarrow> (real \<times> real) option \<Rightarrow> (real \<times> real) option \<Rightarrow>
   (string \<times> real) list \<Rightarrow> cmd list" where
  "select_and_fix_nodes location y_range z_range x_range constraints =
     [Seltol (1 / 10 ^ 8)] @
     (case z_range of
        Some z \<Rightarrow>
          [Nsel ''S'' ''LOC'' ''Z'' (fst z) (snd z)] @
          (case x_range of
             Some x \<Rightarrow> [Nsel ''R'' ''LOC'' ''X'' (fst x) (snd x)]
           | None \<Rightarrow> [])
      | None \<Rightarrow>
          (case x_range of
             Some x \<Rightarrow> [Nsel ''S'' ''LOC'' ''X'' (fst x) (snd x)]
           | None \<Rightarrow> [])) @
     (if x_range = None \<and> z_range = None
      then [Nsel ''S'' ''LOC'' ''Y'' (fst y_range) (snd y_range)]
      else [Nsel ''R'' ''LOC'' ''Y'' (fst y_range) (snd y_range)]) @
     [Cm location ''NODE''] @
     apply_constraints D constraints"

text \<open>
  \<open>select_and_fix_areas\<close>: no \<open>seltol\<close>, and the X selection is a plain \<open>if\<close> (not
  \<open>elif\<close>), so with both ranges present X is selected twice.
\<close>

definition select_and_fix_areas ::
  "string \<Rightarrow> real \<times> real \<Rightarrow> (real \<times> real) option \<Rightarrow> (real \<times> real) option \<Rightarrow>
   (string \<times> real) list \<Rightarrow> cmd list" where
  "select_and_fix_areas location y_range z_range x_range constraints =
     (case z_range of
        Some z \<Rightarrow>
          [Asel ''S'' ''LOC'' ''Z'' (fst z) (snd z)] @
          (case x_range of
             Some x \<Rightarrow> [Asel ''R'' ''LOC'' ''X'' (fst x) (snd x)]
           | None \<Rightarrow> [])
      | None \<Rightarrow> []) @
     (case x_range of
        Some x \<Rightarrow> [Asel ''S'' ''LOC'' ''X'' (fst x) (snd x)]
      | None \<Rightarrow> []) @
     (if x_range = None \<and> z_range = None
      then [Asel ''S'' ''LOC'' ''Y'' (fst y_range) (snd y_range)]
      else [Asel ''R'' ''LOC'' ''Y'' (fst y_range) (snd y_range)]) @
     [Cm location ''AREA''] @
     apply_constraints Da constraints"

text \<open>
  \<open>apply_boundary_conditions\<close> (node-based). \<open>fixed_displacement\<close> is \<open>None\<close> when the
  caller supplies none; only then is \<open>get_displacement\<close> called.
\<close>

definition apply_boundary_conditions ::
  "point list \<Rightarrow> string \<Rightarrow> real \<Rightarrow> real option \<Rightarrow> string \<Rightarrow>
   (real \<Rightarrow> (string \<times> real) list) \<Rightarrow> (string \<times> real) list \<Rightarrow> error + cmd list" where
  "apply_boundary_conditions kps mech_type percent_displacement fixed_displacement
       boundary_type driven_constraints fixed_constraints =
     (case (case fixed_displacement of
              Some d \<Rightarrow> Inr ([], d)
            | None \<Rightarrow> get_displacement kps mech_type percent_displacement) of
        Inl e \<Rightarrow> Inl e
      | Inr (c, displacement) \<Rightarrow>
          (case find_bounds kps of
             Inl e \<Rightarrow> Inl e
           | Inr b \<Rightarrow>
               Inr ([Slashsolu, Antype ''STATIC''] @ c @
                    (if boundary_type \<in> set [''compression'', ''tension''] then
                       select_and_fix_nodes ''fixed'' (ymin b, ymin b) None None fixed_constraints @
                       select_and_fix_nodes ''driven'' (ymax b, ymax b) None None
                         (driven_constraints displacement)
                     else if boundary_type \<in> set [''cant_x'', ''cant_z''] then
                       select_and_fix_nodes ''fixed'' (ymax b, ymax b) None None fixed_constraints @
                       select_and_fix_nodes ''driven'' (ymin b, ymin b) None (Some (xmax b, xmax b))
                         (driven_constraints displacement)
                     else if boundary_type = ''torsion'' then
                       select_and_fix_nodes ''fixed'' (ymin b, ymin b) None None fixed_constraints @
                       select_and_fix_nodes ''driven'' (ymax b, ymax b) None None
                         (driven_constraints displacement)
                     else []) @
                    [Allsel])))"

text \<open>\<open>apply_boundary_conditions_areas\<close> (area-based).\<close>

definition apply_boundary_conditions_areas ::
  "point list \<Rightarrow> string \<Rightarrow> real \<Rightarrow> real option \<Rightarrow> string \<Rightarrow>
   (real \<Rightarrow> (string \<times> real) list) \<Rightarrow> (string \<times> real) list \<Rightarrow> error + cmd list" where
  "apply_boundary_conditions_areas kps mech_type percent_displacement fixed_displacement
       boundary_type driven_constraints fixed_constraints =
     (case (case fixed_displacement of
              Some d \<Rightarrow> Inr ([], d)
            | None \<Rightarrow> get_displacement kps mech_type percent_displacement) of
        Inl e \<Rightarrow> Inl e
      | Inr (c, displacement) \<Rightarrow>
          (case find_bounds kps of
             Inl e \<Rightarrow> Inl e
           | Inr b \<Rightarrow>
               Inr ([Slashsolu, Antype ''STATIC''] @ c @
                    (if boundary_type \<in> set [''compression'', ''tension''] then
                       select_and_fix_areas ''fixed'' (ymin b, ymin_2nd b) None None fixed_constraints @
                       select_and_fix_areas ''driven'' (ymax_2nd b, ymax b) None None
                         (driven_constraints displacement)
                     else if boundary_type \<in> set [''cant_x'', ''cant_z''] then
                       select_and_fix_areas ''fixed'' (ymin b, ymin_2nd b) None None fixed_constraints @
                       select_and_fix_nodes ''driven'' (ymax b, ymax b) None (Some (xmax b, xmax b))
                         (driven_constraints displacement)
                     else if boundary_type = ''torsion'' then
                       select_and_fix_areas ''fixed'' (ymin b, ymin_2nd b) None None fixed_constraints @
                       select_and_fix_nodes ''driven'' (ymax_2nd b, ymax b) None None
                         (driven_constraints displacement)
                     else []) @
                    [Allsel])))"

text \<open>The default \<open>fixed_constraints\<close> of both dispatchers.\<close>

definition default_fixed_constraints :: "(string \<times> real) list" where
  "default_fixed_constraints = [(''UX'', 0), (''UY'', 0), (''UZ'', 0)]"

text \<open>The entry points; the \<open>_kres\<close> ones are node-based, the others area-based.\<close>

definition compression_kres :: "point list \<Rightarrow> string \<Rightarrow> real \<Rightarrow> real option \<Rightarrow> error + cmd list" where
  "compression_kres kps mech_type percent_displacement fixed_displacement =
     apply_boundary_conditions kps mech_type percent_displacement fixed_displacement ''compression''
       (\<lambda>d. [(''UX'', 0), (''UY'', - d), (''UZ'', 0)]) default_fixed_constraints"

definition tension_kres :: "point list \<Rightarrow> string \<Rightarrow> real \<Rightarrow> real option \<Rightarrow> error + cmd list" where
  "tension_kres kps mech_type percent_displacement fixed_displacement =
     apply_boundary_conditions kps mech_type percent_displacement fixed_displacement ''tension''
       (\<lambda>d. [(''UX'', 0), (''UY'', d), (''UZ'', 0)]) default_fixed_constraints"

definition cant_x_kres :: "point list \<Rightarrow> string \<Rightarrow> real \<Rightarrow> real option \<Rightarrow> error + cmd list" where
  "cant_x_kres kps mech_type percent_displacement fixed_displacement =
     apply_boundary_conditions kps mech_type percent_displacement fixed_displacement ''cant_x''
       (\<lambda>d. [(''UX'', - d), (''UZ'', 0)]) default_fixed_constraints"

definition cant_z_kres :: "point list \<Rightarrow> string \<Rightarrow> real \<Rightarrow> real option \<Rightarrow> error + cmd list" where
  "cant_z_kres kps mech_type percent_displacement fixed_displacement =
     apply_boundary_conditions kps mech_type percent_displacement fixed_displacement ''cant_z''
       (\<lambda>d. [(''UZ'', - d), (''UX'', 0)]) default_fixed_constraints"

definition torsion_kres :: "point list \<Rightarrow> string \<Rightarrow> real \<Rightarrow> real option \<Rightarrow> error + cmd list" where
  "torsion_kres kps mech_type percent_displacement fixed_displacement =
     apply_boundary_conditions kps mech_type percent_displacement fixed_displacement ''torsion''
       (\<lambda>d. [(''UX'', 0), (''UY'', 0), (''UZ'', 0), (''ROTX'', 0), (''ROTY'', d), (''ROTZ'', 0)])
       [(''UX'', 0), (''UY'', 0), (''UZ'', 0), (''ROTX'', 0), (''ROTY'', 0), (''ROTZ'', 0)]"

definition compression :: "point list \<Rightarrow> string \<Rightarrow> real \<Rightarrow> real option \<Rightarrow> error + cmd list" where
  "compression kps mech_type percent_displacement fixed_displacement =
     apply_boundary_conditions_areas kps mech_type percent_displacement fixed_displacement
       ''compression'' (\<lambda>d. [(''UX'', 0), (''UY'', - d), (''UZ'', 0)]) default_fixed_constraints"

definition tension :: "point list \<Rightarrow> string \<Rightarrow> real \<Rightarrow> real option \<Rightarrow> error + cmd list" where
  "tension kps mech_type percent_displacement fixed_displacement =
     apply_boundary_conditions_areas kps mech_type percent_displacement fixed_displacement
       ''tension'' (\<lambda>d. [(''UX'', 0), (''UY'', d), (''UZ'', 0)]) default_fixed_constraints"

definition cant_x :: "point list \<Rightarrow> string \<Rightarrow> real \<Rightarrow> real option \<Rightarrow> error + cmd list" where
  "cant_x kps mech_type percent_displacement fixed_displacement =
     apply_boundary_conditions_areas kps mech_type percent_displacement fixed_displacement
       ''cant_x'' (\<lambda>d. [(''UX'', - d), (''UZ'', 0)]) default_fixed_constraints"

definition cant_z :: "point list \<Rightarrow> string \<Rightarrow> real \<Rightarrow> real option \<Rightarrow> error + cmd list" where
  "cant_z kps mech_type percent_displacement fixed_displacement =
     apply_boundary_conditions_areas kps mech_type percent_displacement fixed_displacement
       ''cant_z'' (\<lambda>d. [(''UZ'', - d), (''UX'', 0)]) default_fixed_constraints"

definition torsion :: "point list \<Rightarrow> string \<Rightarrow> real \<Rightarrow> real option \<Rightarrow> error + cmd list" where
  "torsion kps mech_type percent_displacement fixed_displacement =
     apply_boundary_conditions_areas kps mech_type percent_displacement fixed_displacement
       ''torsion''
       (\<lambda>d. [(''UX'', 0), (''UY'', 0), (''UZ'', 0), (''ROTX'', 0), (''ROTY'', d), (''ROTZ'', 0)])
       [(''UX'', 0), (''UY'', 0), (''UZ'', 0), (''ROTX'', 0), (''ROTY'', 0), (''ROTZ'', 0)]"

section \<open>model\_utils.py: endpoint clusters and end blocks\<close>

text \<open>\<open>np.linalg.norm(point - p)\<close> on rows of the coordinate array.\<close>

definition point_sub :: "point \<Rightarrow> point \<Rightarrow> point" where
  "point_sub a b = (px a - px b, py a - py b, pz a - pz b)"

definition np_linalg_norm :: "point \<Rightarrow> real" where
  "np_linalg_norm v = sqrt ((px v)\<^sup>2 + (py v)\<^sup>2 + (pz v)\<^sup>2)"

text \<open>
  One \<open>for\<close> loop of \<open>select_unique_points\<close>: the rows still to visit, the list being
  appended to, and its limit. The source has the loop twice, once per list; \<open>break\<close>
  returns the list as it is.
\<close>

fun unique_points_loop :: "point list \<Rightarrow> point list \<Rightarrow> int \<Rightarrow> point list" where
  "unique_points_loop [] y_points y_limit = y_points"
| "unique_points_loop (point # rest) y_points y_limit =
     (if int (length y_points) < y_limit then
        (if y_points = [] \<or>
            np_min (map (\<lambda>p. np_linalg_norm (point_sub point p)) y_points) > 1 / 10 ^ 6
         then unique_points_loop rest (y_points @ [point]) y_limit
         else unique_points_loop rest y_points y_limit)
      else y_points)"

text \<open>
  \<open>select_unique_points\<close> appends to the two lists it is given; the model returns them.
  The second loop runs over \<open>sorted_nodes[::-1]\<close>.
\<close>

definition select_unique_points ::
  "point list \<Rightarrow> point list \<Rightarrow> point list \<Rightarrow> int \<Rightarrow> int \<Rightarrow> point list \<times> point list" where
  "select_unique_points sorted_nodes min_y_points max_y_points min_y_limit max_y_limit =
     (unique_points_loop sorted_nodes min_y_points min_y_limit,
      unique_points_loop (rev sorted_nodes) max_y_points max_y_limit)"

text \<open>
  \<open>find_endpoints(mapdl, mech_type)\<close>. \<open>argsort\<close> is what \<open>np.argsort\<close> answers for the
  Y column: the row indices in an order of ascending Y. Its default sort is not stable,
  so the order among rows of equal Y is numpy's choice and not fixed here.
\<close>

definition find_endpoints ::
  "(real list \<Rightarrow> nat list) \<Rightarrow> point list \<Rightarrow> string \<Rightarrow> point list \<times> point list" where
  "find_endpoints argsort nodes_coords mech_type =
     (let sorted_nodes = map (\<lambda>i. nodes_coords ! i) (argsort (map py nodes_coords))
      in if mech_type = ''PET'' then select_unique_points sorted_nodes [] [] 5 3
         else if mech_type = ''SCISSOR'' then select_unique_points sorted_nodes [] [] 2 2
         else ([], []))"

text \<open>
  The loop of \<open>create_blocks_from_points\<close> over \<open>range(len(sorted_points) - 1)\<close>: the
  index \<open>i\<close>, the current value of the variable \<open>height\<close>, and \<open>sorted_points[i:]\<close>.
  With a zero Z-extent the first iteration issues two blocks and returns.
\<close>

fun blocks_loop :: "nat \<Rightarrow> real \<Rightarrow> point list \<Rightarrow> real \<Rightarrow> real \<Rightarrow> cmd list" where
  "blocks_loop i height' (p1 # p2 # rest) zmax' zmin' =
     (let height'' = (if i = 0
                      then (let h = \<bar>py p2 - py p1\<bar> in if h = 0 then 3 else h)
                      else height');
          width' = px p2 - px p1;
          depth' = zmax' - zmin'
      in if depth' = 0 then
           (let depth'' = 3;
                direction = (if py p1 < 0 then - 1 else 1)
            in [Blc4 (px p1) (min (py p1) (py p2)) width' (direction * height'') depth'',
                Blc4 (px p1) (min (py p1) (py p2)) width' (direction * height'') (- depth'')])
         else
           Blc4 (px p1) (min (py p1) (py p2)) width' height'' depth' #
           blocks_loop (i + 1) height'' (p2 # rest) zmax' zmin')"
| "blocks_loop i height' ps zmax' zmin' = []"

text \<open>
  \<open>create_blocks_from_points(mapdl, points, zmax, zmin)\<close>. \<open>sorted\<close> is stable, as
  \<open>sort_key\<close> is. \<open>height\<close> is unbound before the first iteration assigns it; the
  initial value given here is never read.
\<close>

definition create_blocks_from_points :: "point list \<Rightarrow> real \<Rightarrow> real \<Rightarrow> cmd list" where
  "create_blocks_from_points points zmax' zmin' =
     blocks_loop 0 0 (sort_key px points) zmax' zmin'"

definition process_pet_scissor ::
  "(real list \<Rightarrow> nat list) \<Rightarrow> point list \<Rightarrow> string \<Rightarrow> real \<Rightarrow> real \<Rightarrow> real \<Rightarrow> real \<Rightarrow>
   cmd list" where
  "process_pet_scissor argsort kps mech_type ymin' ymax' zmax' zmin' =
     (let (min_y_points, max_y_points) = find_endpoints argsort kps mech_type
      in create_blocks_from_points min_y_points zmax' zmin' @
         create_blocks_from_points max_y_points zmax' zmin' @
         [Vsel1 ''ALL'', Et 2 ''SOLID185'' [], Vatt 1 2, Vmesh ''ALL'',
          Nsel1 ''ALL'', Nummrg ''NODE''])"

text \<open>
  What the engine answers inside \<open>process_kresling\<close>: the line ids selected at each
  end and the area numbers \<open>mapdl.al\<close> returns.
\<close>

record kresling_reply =
  left_line_ids :: "nat list"
  left_end :: nat
  right_line_ids :: "nat list"
  right_end :: nat

definition process_kresling :: "kresling_reply \<Rightarrow> real \<Rightarrow> real \<Rightarrow> cmd list" where
  "process_kresling r ymin' ymax' =
     [Lsel_loc ''S'' ''LOC'' ''Y'' ymin', Al (left_line_ids r), Vext (left_end r) (- 3),
      Lsel_loc ''S'' ''LOC'' ''Y'' ymax', Al (right_line_ids r), Vext (right_end r) 3,
      Vsel1 ''ALL'', Et 2 ''SOLID187'' [], Vatt 1 2, Vmesh ''ALL'',
      Nsel1 ''ALL'', Nummrg ''NODE'']"

section \<open>model\_utils.py: the geometry loader\<close>

text \<open>A row of the member table, with the column names of the CSV file.\<close>

record member =
  x1 :: real
  y1 :: real
  z1 :: real
  x2 :: real
  y2 :: real
  z2 :: real
  width :: real
  height :: real

text \<open>
  \<open>Series.unique()\<close> of pandas: the distinct values in order of first appearance.
  (\<open>remdups\<close> keeps the last occurrence of each value, hence the two reversals.)
\<close>

definition unique :: "'a list \<Rightarrow> 'a list" where
  "unique xs = rev (remdups (rev xs))"

text \<open>
  The dict comprehension of \<open>get_beam_model_new\<close>. The key \<open>f"{i+1}"\<close> is kept as the
  number \<open>i + 1\<close>, the inner dict as the pair (width, height). \<open>height_values[i]\<close> raises
  \<open>IndexError\<close> when there are fewer distinct heights than distinct widths.
\<close>

definition cross_section_types :: "real list \<Rightarrow> real list \<Rightarrow> error + (nat \<times> real \<times> real) list" where
  "cross_section_types width_values height_values =
     (if length height_values < length width_values then Inl IndexError
      else Inr (map (\<lambda>i. (i + 1, width_values ! i, height_values ! i))
                    [0 ..< length width_values]))"

text \<open>
  \<open>load_csv(mapdl, df)\<close>: keypoints \<open>2i + 1\<close> and \<open>2i + 2\<close> for row \<open>i\<close>; all first
  keypoints, then all second keypoints, then all lines, in one \<open>input_strings\<close> call.
\<close>

definition load_csv :: "member list \<Rightarrow> cmd list" where
  "load_csv df =
     (let rows = zip [0 ..< length df] df;
          kp1_commands = map (\<lambda>(i, m). K (i * 2 + 1) (x1 m) (y1 m) (z1 m)) rows;
          kp2_commands = map (\<lambda>(i, m). K (i * 2 + 2) (x2 m) (y2 m) (z2 m)) rows;
          line_commands = map (\<lambda>(i, m). L (i * 2 + 1) (i * 2 + 2)) rows
      in [Input_strings (kp1_commands @ kp2_commands @ line_commands)])"

text \<open>
  \<open>get_beam_model_new\<close>. \<open>df_config\<close> is the table read from the CSV file; \<open>kps\<close> is
  the keypoint table the engine reports after meshing and merging, \<open>r\<close> its answers in
  the Kresling branch, \<open>argsort\<close> numpy's answer inside \<open>find_endpoints\<close>. When a step
  raises, the result is the error alone.
\<close>

definition get_beam_model_new ::
  "kresling_reply \<Rightarrow> (real list \<Rightarrow> nat list) \<Rightarrow> point list \<Rightarrow> member list \<Rightarrow> string \<Rightarrow> int \<Rightarrow>
   int \<Rightarrow> real \<Rightarrow> real \<Rightarrow> bool \<Rightarrow> string \<Rightarrow> error + cmd list" where
  "get_beam_model_new r argsort kps df_config element_type ndiv num_cross_elements scale'
       cross_scale warp mech_type =
     (let df = map (\<lambda>m. m\<lparr>x1 := x1 m * scale', y1 := y1 m * scale', z1 := z1 m * scale',
                            x2 := x2 m * scale', y2 := y2 m * scale', z2 := z2 m * scale'\<rparr>)
                   df_config;
          df = map (\<lambda>m. m\<lparr>width := width m * cross_scale, height := height m * cross_scale\<rparr>) df;
          width_values = unique (map width df);
          height_values = unique (map height df)
      in case cross_section_types width_values height_values of
           Inl e \<Rightarrow> Inl e
         | Inr types \<Rightarrow>
             (case find_bounds kps of
                Inl e \<Rightarrow> Inl e
              | Inr b \<Rightarrow>
                  Inr (concat (map (\<lambda>(i, key, v).
                                      [Sectype (i + 1) ''BEAM'' ''RECT'',
                                       Secdata (fst v) (snd v) num_cross_elements num_cross_elements])
                                   (zip [0 ..< length types] types)) @
                       [Et 1 element_type (if warp then [1, 0, 3] else [0, 0, 3])] @
                       load_csv df @
                       [Lsel1 ''ALL'', Latt 1 1 1, Lesize ''ALL'' ndiv, Lmesh ''ALL'',
                        Nsel1 ''ALL'', Nummrg ''NODE'', Nummrg ''KP'', Endrelease] @
                       (if mech_type = ''KRESLING'' then process_kresling r (ymin b) (ymax b)
                        else if mech_type \<in> set [''PET'', ''SCISSOR'']
                        then process_pet_scissor argsort kps mech_type
                               (ymin b) (ymax b) (zmax b) (zmin b)
                        else []))))"

section \<open>ansys\_utils.py: post-processing\<close>

text \<open>A cell of a result row: a number, or numpy's \<open>nan\<close>.\<close>

datatype pyfloat = Num real | NaN

text \<open>
  The files written so far: path to header and rows. \<open>write_to_csv\<close> opens with mode
  \<open>'w'\<close>, so it replaces what the path held.
\<close>

type_synonym files = "string \<rightharpoonup> (string list \<times> pyfloat list list)"

definition write_to_csv :: "files \<Rightarrow> string \<Rightarrow> pyfloat list list \<Rightarrow> string \<Rightarrow> files" where
  "write_to_csv fs filename data_to_write displacement_type =
     (let headers = [''Displacement'', ''FX'', ''FY'', ''FZ'', ''MX'', ''MY'', ''MZ'', ''L'']
      in fs(filename \<mapsto> (headers, data_to_write)))"

text \<open>
  \<open>post_process\<close>. The engine's answers are the keypoint table \<open>kps\<close>, the flag
  \<open>mapdl.solution.converged\<close> and \<open>fsum\<close>, the value \<open>mapdl.get\<close> returns for each
  item of the reaction sum. The result is the commands issued, the files, and the
  returned flag. The arguments \<open>substeps\<close> and \<open>plot\<close> are never read and left out.
\<close>

definition post_process ::
  "point list \<Rightarrow> bool \<Rightarrow> (string \<Rightarrow> real) \<Rightarrow> files \<Rightarrow> real \<Rightarrow> string \<Rightarrow> string \<Rightarrow> string \<Rightarrow>
   real option \<Rightarrow> error + (cmd list \<times> files \<times> bool)" where
  "post_process kps converged fsum fs percent_displacement filename displacement_type mech_type
       fixed_displacement =
     (case find_bounds kps of
        Inl e \<Rightarrow> Inl e
      | Inr b \<Rightarrow>
          (case (case fixed_displacement of
                   Some d \<Rightarrow> Inr ([], d)
                 | None \<Rightarrow> get_displacement kps mech_type percent_displacement) of
             Inl e \<Rightarrow> Inl e
           | Inr (c, displacement) \<Rightarrow>
               (let length' = (if mech_type = ''KRESLING'' \<or> mech_type = ''HERDS''
                               then ymax b - ymin b
                               else ymax_2nd b - ymin_2nd b);
                    c' = c @ [Post1, Set_cmd ''LAST'', Cmsel ''S'' ''driven'']
                in if \<not> converged then
                     Inr (c',
                          write_to_csv fs filename
                            [[Num displacement, NaN, NaN, NaN, NaN, NaN, NaN, Num length']]
                            displacement_type,
                          False)
                   else
                     Inr (c' @ [Fsum,
                                Get ''FSUM'' ''ITEM'' ''FX'', Get ''FSUM'' ''ITEM'' ''FY'',
                                Get ''FSUM'' ''ITEM'' ''FZ'', Get ''FSUM'' ''ITEM'' ''MX'',
                                Get ''FSUM'' ''ITEM'' ''MY'', Get ''FSUM'' ''ITEM'' ''MZ''],
                          write_to_csv fs filename
                            [[Num displacement, Num (fsum ''FX''), Num (fsum ''FY''),
                              Num (fsum ''FZ''), Num (fsum ''MX''), Num (fsum ''MY''),
                              Num (fsum ''MZ''), Num length']]
                            displacement_type,
                          True))))"

section \<open>run\_ansys\_simulation.py and the sweep scripts\<close>

text \<open>
  A value of the \<open>simulation_args\<close> dict, and the dict itself as a map from its keys.
\<close>

datatype py_value = VStr string | VFloat real | VInt int | VBool bool | VNone

type_synonym py_dict = "string \<rightharpoonup> py_value"

text \<open>
  The calls the orchestrating process makes, in order. \<open>Process_new d\<close> creates the
  worker whose target runs \<open>run_simulation(**d)\<close> and puts the result on the queue;
  \<open>P_join t\<close> is \<open>p.join(timeout=t)\<close>, \<open>P_join None\<close> the plain \<open>p.join()\<close>. None of
  them writes a file: the result file is written inside the worker, by \<open>post_process\<close>.
\<close>

datatype proc_call =
    Queue_new
  | Process_new py_dict
  | P_start
  | P_join "int option"
  | P_is_alive
  | P_terminate
  | Print string
  | Queue_get
  | Queue_close
  | Queue_join_thread
  | Gc_collect
  | Listdir string

text \<open>A call either returns a value, or never returns.\<close>

datatype 'a returned = Returned 'a | Blocked

text \<open>
  \<open>run_simulation_with_timeout(simulation_vars, timeout)\<close>. What the operating system
  answers is given: \<open>alive\<close> is the value of \<open>p.is_alive()\<close> after the timed join (true
  exactly when the worker has run past the timeout), and \<open>queued\<close> is what the queue
  holds, \<open>None\<close> when the worker ended without putting a result; \<open>queue.get()\<close> then
  waits forever. The Python value returned is \<open>None\<close> or the worker's result.
\<close>

definition run_simulation_with_timeout ::
  "bool \<Rightarrow> bool option \<Rightarrow> py_dict \<Rightarrow> int \<Rightarrow> proc_call list \<times> bool option returned" where
  "run_simulation_with_timeout alive queued simulation_vars timeout =
     (let c = [Queue_new, Process_new simulation_vars, P_start, P_join (Some timeout), P_is_alive]
      in if alive then
           (c @ [P_terminate, P_join None, Print ''Simulation terminated due to timeout.'',
                 Queue_close, Queue_join_thread, Gc_collect],
            Returned None)
         else
           (case queued of
              None \<Rightarrow> (c @ [Queue_get], Blocked)
            | Some result \<Rightarrow>
                (c @ [Queue_get, Queue_close, Queue_join_thread, Gc_collect],
                 Returned (Some result))))"

text \<open>
  \<open>run_all_deployment_test.py\<close>, the inner loop of \<open>main\<close> over the files of one folder.
  Each file name of the listing comes with the two answers of the operating system for
  its run. The call passes no timeout, so the default 1800 applies. The dict is updated
  in place and carried to the next iteration.
\<close>

fun sweep_files ::
  "string \<Rightarrow> string \<Rightarrow> (string \<times> bool \<times> bool option) list \<Rightarrow> py_dict \<Rightarrow>
   proc_call list \<times> py_dict returned" where
  "sweep_files folder_path mech_type [] simulation_args = ([], Returned simulation_args)"
| "sweep_files folder_path mech_type ((filename, alive, queued) # filenames) simulation_args =
     (if sublist ''mass'' filename then
        (let (c, r) = sweep_files folder_path mech_type filenames simulation_args
         in (Print filename # c, r))
      else
        (let args = simulation_args(''filename'' \<mapsto> VStr filename,
                                    ''folder_path'' \<mapsto> VStr folder_path,
                                    ''mech_type'' \<mapsto> VStr mech_type);
             (c1, r1) = run_simulation_with_timeout alive queued args 1800
         in case r1 of
              Blocked \<Rightarrow> (Print filename # c1, Blocked)
            | Returned x \<Rightarrow>
                (let (c2, r2) = sweep_files folder_path mech_type filenames args
                 in (Print filename # c1 @ c2, r2))))"

text \<open>The outer loop over \<open>zip(folder_paths, mech_types)\<close>; \<open>listdir\<close> is \<open>os.listdir\<close>.\<close>

fun sweep_folders ::
  "(string \<times> string) list \<Rightarrow> (string \<Rightarrow> (string \<times> bool \<times> bool option) list) \<Rightarrow> py_dict \<Rightarrow>
   proc_call list \<times> py_dict returned" where
  "sweep_folders [] listdir simulation_args = ([], Returned simulation_args)"
| "sweep_folders ((folder_path, mech_type) # rest) listdir simulation_args =
     (let (c1, r1) = sweep_files folder_path mech_type (listdir folder_path) simulation_args
      in case r1 of
           Blocked \<Rightarrow> (Listdir folder_path # c1, Blocked)
         | Returned args \<Rightarrow>
             (let (c2, r2) = sweep_folders rest listdir args
              in (Listdir folder_path # c1 @ c2, r2)))"

definition main :: "(string \<Rightarrow> (string \<times> bool \<times> bool option) list) \<Rightarrow> proc_call list \<times> unit returned" where
  "main listdir =
     (let simulation_args =
            [''filename'' \<mapsto> VStr [], ''folder_path'' \<mapsto> VStr [],
             ''mech_type'' \<mapsto> VStr ''PET'', ''boundary_condition_function'' \<mapsto> VStr ''cant_x'',
             ''percent_displacement'' \<mapsto> VFloat 1, ''substeps'' \<mapsto> VInt 100,
             ''num_elements'' \<mapsto> VInt 10, ''num_cross_elements'' \<mapsto> VInt 3,
             ''element_type'' \<mapsto> VStr ''BEAM188'', ''result_filename'' \<mapsto> VNone,
             ''scale'' \<mapsto> VFloat 5, ''cross_scale'' \<mapsto> VFloat (6 / 10),
             ''E'' \<mapsto> VFloat (9628 / 10), ''fixed_displacement'' \<mapsto> VNone,
             ''warp'' \<mapsto> VBool False];
          folder_paths = [''data/models/pets/deployment_test'',
                          ''data/models/short_scissor/deployment_test'',
                          ''data/models/long_scissor/deployment_test''];
          mech_types = [''PET'', ''SCISSOR'', ''SCISSOR''];
          (c, r) = sweep_folders (zip folder_paths mech_types) listdir simulation_args
      in (c, case r of Blocked \<Rightarrow> Blocked | Returned x \<Rightarrow> Returned ()))"

section \<open>Properties of find\_bounds\<close>

lemma np_min_le_np_max: "xs \<noteq> [] \<Longrightarrow> np_min xs \<le> np_max xs"
  by (simp add: np_min_def np_max_def)

lemma np_min_filter_bounds:
  assumes "filter P ps \<noteq> []"
  shows "np_min (map f ps) \<le> np_min (map f (filter P ps))"
    and "np_min (map f (filter P ps)) \<le> np_max (map f ps)"
proof -
  let ?A = "f ` set ps" and ?B = "f ` set (filter P ps)"
  have ne: "?B \<noteq> {}" using assms by (metis image_is_empty set_empty)
  have sub: "?B \<subseteq> ?A" by auto
  have fin: "finite ?A" by simp
  show "np_min (map f ps) \<le> np_min (map f (filter P ps))"
    using Min_antimono [OF sub ne fin] by (simp add: np_min_def)
  have "Min ?B \<in> ?B" using ne by (intro Min_in) simp_all
  then have "Min ?B \<in> ?A" using sub by blast
  then show "np_min (map f (filter P ps)) \<le> np_max (map f ps)"
    by (simp add: np_min_def np_max_def)
qed

lemma np_max_filter_bounds:
  assumes "filter P ps \<noteq> []"
  shows "np_max (map f (filter P ps)) \<le> np_max (map f ps)"
    and "np_min (map f ps) \<le> np_max (map f (filter P ps))"
proof -
  let ?A = "f ` set ps" and ?B = "f ` set (filter P ps)"
  have ne: "?B \<noteq> {}" using assms by (metis image_is_empty set_empty)
  have sub: "?B \<subseteq> ?A" by auto
  have fin: "finite ?A" by simp
  show "np_max (map f (filter P ps)) \<le> np_max (map f ps)"
    using Max_mono [OF sub ne fin] by (simp add: np_max_def)
  have "Max ?B \<in> ?B" using ne by (intro Max_in) simp_all
  then have "Max ?B \<in> ?A" using sub by blast
  then show "np_min (map f ps) \<le> np_max (map f (filter P ps))"
    by (simp add: np_min_def np_max_def)
qed

lemma find_bounds_nonempty:
  "kps \<noteq> [] \<Longrightarrow> \<exists>b. find_bounds kps = Inr b"
  by (simp add: find_bounds_def Let_def)

lemma find_bounds_four_levels:
  "find_bounds [(0, 0, 0), (1, 1, 0), (1, 3, 0), (2, 4, 0)] =
     Inr \<lparr>xmin = 0, xmax = 2, ymin = 0, ymax = 4, zmin = 0, zmax = 0,
          ymin_2nd = 1, ymax_2nd = 3\<rparr>"
  by (simp add: find_bounds_def Let_def np_min_def np_max_def px_def py_def pz_def)

section \<open>Properties of the end-block loop\<close>

lemma blocks_loop_Blc4:
  "c \<in> set (blocks_loop i h ps zmax' zmin') \<Longrightarrow>
     \<exists>x y w h' dp. c = Blc4 x y w h' dp \<and>
       (if zmax' - zmin' = 0 then dp = 3 \<or> dp = - 3 else dp = zmax' - zmin')"
  by (induction i h ps zmax' zmin' rule: blocks_loop.induct)
     (auto simp add: Let_def split: if_splits)

section \<open>Properties of the endpoint selection loop\<close>

lemma np_linalg_norm_sym:
  "np_linalg_norm (point_sub a b) = np_linalg_norm (point_sub b a)"
  by (simp add: np_linalg_norm_def point_sub_def px_def py_def pz_def power2_commute)

lemma np_min_gr_iff:
  "ps \<noteq> [] \<Longrightarrow> c < np_min (map f ps) \<longleftrightarrow> (\<forall>p\<in>set ps. c < f p)"
  by (simp add: np_min_def)

lemma unique_points_loop_length:
  "int (length (unique_points_loop xs acc k)) \<le> max (int (length acc)) k"
proof (induction xs arbitrary: acc)
  case Nil
  then show ?case by simp
next
  case (Cons q xs)
  have a: "int (length (unique_points_loop xs (acc @ [q]) k)) \<le> max (int (length (acc @ [q]))) k"
    by (rule Cons.IH)
  have b: "int (length (unique_points_loop xs acc k)) \<le> max (int (length acc)) k"
    by (rule Cons.IH)
  show ?case
    using a b by (auto simp add: max_def split: if_splits)
qed

lemma far_snoc:
  assumes far: "\<forall>i<length acc. \<forall>j<length acc. i \<noteq> j \<longrightarrow>
             1 / 10 ^ 6 < np_linalg_norm (point_sub (acc ! i) (acc ! j))"
    and new: "\<forall>p\<in>set acc. 1 / 10 ^ 6 < np_linalg_norm (point_sub q p)"
  shows "\<forall>i<length (acc @ [q]). \<forall>j<length (acc @ [q]). i \<noteq> j \<longrightarrow>
             1 / 10 ^ 6 < np_linalg_norm (point_sub ((acc @ [q]) ! i) ((acc @ [q]) ! j))"
proof (intro allI impI)
  fix i j
  assume i: "i < length (acc @ [q])" and j: "j < length (acc @ [q])" and ne: "i \<noteq> j"
  consider "i < length acc" "j < length acc"
    | "i = length acc" "j < length acc"
    | "i < length acc" "j = length acc"
    using i j ne by (auto simp add: less_Suc_eq)
  then show "1 / 10 ^ 6 < np_linalg_norm (point_sub ((acc @ [q]) ! i) ((acc @ [q]) ! j))"
  proof cases
    case 1
    then show ?thesis using far ne by (simp add: nth_append)
  next
    case 2
    then show ?thesis using new by (simp add: nth_append)
  next
    case 3
    then have "1 / 10 ^ 6 < np_linalg_norm (point_sub q (acc ! i))"
      using new by simp
    then show ?thesis using 3 by (simp add: nth_append np_linalg_norm_sym [of q])
  qed
qed

lemma unique_points_loop_far:
  assumes "\<forall>i<length acc. \<forall>j<length acc. i \<noteq> j \<longrightarrow>
             1 / 10 ^ 6 < np_linalg_norm (point_sub (acc ! i) (acc ! j))"
  shows "\<forall>i<length (unique_points_loop xs acc k). \<forall>j<length (unique_points_loop xs acc k).
           i \<noteq> j \<longrightarrow>
             1 / 10 ^ 6 < np_linalg_norm (point_sub (unique_points_loop xs acc k ! i)
                                                   (unique_points_loop xs acc k ! j))"
  using assms
proof (induction xs arbitrary: acc)
  case Nil
  then show ?case by simp
next
  case (Cons q xs)
  show ?case
  proof (cases "int (length acc) < k \<and>
      (acc = [] \<or> np_min (map (\<lambda>p. np_linalg_norm (point_sub q p)) acc) > 1 / 10 ^ 6)")
    case True
    then have new: "\<forall>p\<in>set acc. 1 / 10 ^ 6 < np_linalg_norm (point_sub q p)"
      using np_min_gr_iff [of acc "1 / 10 ^ 6" "\<lambda>p. np_linalg_norm (point_sub q p)"]
      by (cases "acc = []") auto
    have "unique_points_loop (q # xs) acc k = unique_points_loop xs (acc @ [q]) k"
      using True by auto
    then show ?thesis
      using Cons.IH [OF far_snoc [OF Cons.prems new]] by simp
  next
    case False
    then have "unique_points_loop (q # xs) acc k = unique_points_loop xs acc k
        \<or> unique_points_loop (q # xs) acc k = acc"
      by auto
    then show ?thesis
      using Cons.IH [OF Cons.prems] Cons.prems by auto
  qed
qed

lemma far_iff:
  "1 / 10 ^ 6 < np_linalg_norm v \<longleftrightarrow> 1 / 10 ^ 12 < (px v)\<^sup>2 + (py v)\<^sup>2 + (pz v)\<^sup>2"
proof -
  have "1 / 10 ^ 6 = sqrt (1 / 10 ^ 12 :: real)"
    by (simp add: real_sqrt_divide real_sqrt_power [symmetric] flip: power_mult)
  then show ?thesis
    by (simp only: np_linalg_norm_def real_sqrt_less_iff)
qed

lemma far_iff_normal:
  "1 < np_linalg_norm v * 1000000 \<longleftrightarrow> 1 / 10 ^ 12 < (px v)\<^sup>2 + (py v)\<^sup>2 + (pz v)\<^sup>2"
  using far_iff [of v] by simp

section \<open>A keypoint table for the loader examples\<close>

lemma find_bounds_three_keypoints:
  "find_bounds [(0, 0, 0), (1, 1, 0), (2, 0, 0)] =
     Inr \<lparr>xmin = 0, xmax = 2, ymin = 0, ymax = 1, zmin = 0, zmax = 0,
          ymin_2nd = 1, ymax_2nd = 0\<rparr>"
  by (simp add: find_bounds_def Let_def np_min_def np_max_def px_def py_def pz_def)

section \<open>Claims about find\_bounds\<close>

text \<open>
  C7. For every non-empty keypoint table whose rows all have the same Y coordinate,
  \<open>find_bounds\<close> returns (it raises nothing) with \<open>ymin_2nd\<close> equal to \<open>ymin\<close> and
  \<open>ymax_2nd\<close> equal to \<open>ymax\<close>.
\<close>

theorem find_bounds_same_y:
  assumes ne: "kps \<noteq> []"
    and same: "\<forall>p\<in>set kps. \<forall>q\<in>set kps. py p = py q"
  shows "\<exists>b. find_bounds kps = Inr b \<and> ymin_2nd b = ymin b \<and> ymax_2nd b = ymax b"
proof -
  obtain c where c: "\<forall>p\<in>set kps. py p = c"
    using same by metis
  have img: "py ` set kps = {c}"
    using c ne by (cases kps) auto
  have mn: "np_min (map py kps) = c" and mx: "np_max (map py kps) = c"
    by (simp_all add: np_min_def np_max_def img)
  have f: "filter (\<lambda>p. py p \<noteq> c) kps = []"
    using c by (simp add: filter_empty_conv)
  show ?thesis
    using ne by (simp add: find_bounds_def Let_def mn mx f)
qed

theorem find_bounds_same_y_witness:
  "[(0, 4, 0), (1, 4, 2), (3, 4, 1)] \<noteq> ([] :: point list) \<and>
   map py [(0, 4, 0), (1, 4, 2), (3, 4, 1)] = [4, 4, 4] \<and>
   (\<exists>b. find_bounds [(0, 4, 0), (1, 4, 2), (3, 4, 1)] = Inr b \<and>
        ymin_2nd b = ymin b \<and> ymax_2nd b = ymax b)"
proof -
  have ne: "[(0, 4, 0), (1, 4, 2), (3, 4, 1)] \<noteq> ([] :: point list)"
    by simp
  have ys: "map py [(0, 4, 0), (1, 4, 2), (3, 4, 1)] = [4, 4, 4]"
    by (simp add: py_def)
  have same: "\<forall>p\<in>set [(0, 4, 0), (1, 4, 2), (3, 4, 1 :: real)].
      \<forall>q\<in>set [(0, 4, 0), (1, 4, 2), (3, 4, 1 :: real)]. py p = py q"
    by (simp add: py_def)
  show ?thesis
    using ne ys find_bounds_same_y [OF ne same] by blast
qed

text \<open>
  C10. For every non-empty keypoint table \<open>find_bounds\<close> returns bounds with
  \<open>xmin \<le> xmax\<close>, \<open>ymin \<le> ymax\<close>, \<open>zmin \<le> zmax\<close>, \<open>ymin \<le> ymin_2nd \<le> ymax\<close> and
  \<open>ymin \<le> ymax_2nd \<le> ymax\<close>. The two second bounds are not ordered among themselves:
  when the table has exactly two distinct Y values \<open>lo < hi\<close>, \<open>ymin_2nd\<close> is \<open>hi\<close> and
  \<open>ymax_2nd\<close> is \<open>lo\<close>, so the inner span \<open>ymax_2nd - ymin_2nd\<close> is negative.
\<close>

theorem find_bounds_ordered:
  assumes "kps \<noteq> []"
  shows "\<exists>b. find_bounds kps = Inr b \<and>
           xmin b \<le> xmax b \<and> ymin b \<le> ymax b \<and> zmin b \<le> zmax b \<and>
           ymin b \<le> ymin_2nd b \<and> ymin_2nd b \<le> ymax b \<and>
           ymin b \<le> ymax_2nd b \<and> ymax_2nd b \<le> ymax b \<and>
           (\<forall>lo hi. py ` set kps = {lo, hi} \<and> lo < hi \<longrightarrow>
              ymin_2nd b = hi \<and> ymax_2nd b = lo)"
proof -
  let ?ys = "map py kps"
  let ?lo = "np_min ?ys" and ?hi = "np_max ?ys"
  let ?F = "filter (\<lambda>p. py p \<noteq> ?lo) kps" and ?G = "filter (\<lambda>p. py p \<noteq> ?hi) kps"
  let ?m2 = "if length ?F > 0 then np_min (map py ?F) else ?lo"
  let ?M2 = "if length ?G > 0 then np_max (map py ?G) else ?hi"
  have ne: "map f kps \<noteq> []" for f :: "point \<Rightarrow> real"
    using assms by simp
  have 1: "?lo \<le> ?m2" "?m2 \<le> ?hi"
    using np_min_filter_bounds [of "\<lambda>p. py p \<noteq> ?lo" kps py] np_min_le_np_max [OF ne]
    by auto
  have 2: "?lo \<le> ?M2" "?M2 \<le> ?hi"
    using np_max_filter_bounds [of "\<lambda>p. py p \<noteq> ?hi" kps py] np_min_le_np_max [OF ne]
    by auto
  have 3: "?m2 = hi \<and> ?M2 = lo" if two: "py ` set kps = {lo, hi}" and lt: "lo < hi" for lo hi
  proof -
    have mn: "?lo = lo" using two lt by (simp add: np_min_def)
    have mx: "?hi = hi" using two lt by (simp add: np_max_def)
    have rm: "py ` set (filter (\<lambda>p. py p \<noteq> a) kps) = py ` set kps - {a}" for a
      by auto
    have F: "py ` set ?F = {hi}" unfolding mn rm two using lt by auto
    have G: "py ` set ?G = {lo}" unfolding mx rm two using lt by auto
    have Fne: "?F \<noteq> []" using F by (metis image_is_empty insert_not_empty set_empty)
    have Gne: "?G \<noteq> []" using G by (metis image_is_empty insert_not_empty set_empty)
    have "np_min (map py ?F) = hi" using F by (simp add: np_min_def)
    moreover have "np_max (map py ?G) = lo" using G by (simp add: np_max_def)
    ultimately show ?thesis using Fne Gne by simp
  qed
  show ?thesis
    using assms 1 2 3 np_min_le_np_max [OF ne]
    by (simp add: find_bounds_def Let_def)
qed

theorem find_bounds_ordered_witness:
  "[(0, 0, 0), (1, 2, 0)] \<noteq> ([] :: point list) \<and>
   find_bounds [(0, 0, 0), (1, 2, 0)] =
     Inr \<lparr>xmin = 0, xmax = 1, ymin = 0, ymax = 2, zmin = 0, zmax = 0,
          ymin_2nd = 2, ymax_2nd = 0\<rparr> \<and>
   py ` set [(0, 0, 0), (1, 2, 0)] = {0, 2} \<and>
   (\<exists>b. find_bounds [(0, 0, 0), (1, 2, 0)] = Inr b \<and>
        ymin b \<le> ymin_2nd b \<and> ymin_2nd b \<le> ymax b \<and>
        ymin b \<le> ymax_2nd b \<and> ymax_2nd b \<le> ymax b \<and>
        ymin_2nd b = 2 \<and> ymax_2nd b = 0)"
proof -
  have ne: "[(0, 0, 0), (1, 2, 0)] \<noteq> ([] :: point list)"
    by simp
  have val: "find_bounds [(0, 0, 0), (1, 2, 0)] =
     Inr \<lparr>xmin = 0, xmax = 1, ymin = 0, ymax = 2, zmin = 0, zmax = 0,
          ymin_2nd = 2, ymax_2nd = 0\<rparr>"
    by (simp add: find_bounds_def Let_def np_min_def np_max_def px_def py_def pz_def)
  have two: "py ` set [(0, 0, 0), (1, 2, 0)] = {0, 2}"
    by (simp add: py_def)
  show ?thesis
    using ne val two find_bounds_ordered [OF ne] by simp
qed

section \<open>Claims about the boundary-condition dispatcher\<close>

text \<open>
  C1. In every loading-mode invocation, whatever the mechanism type, the displacement
  applied to the driven group is the caller's fixed displacement when one is supplied
  (percent and reference length are then not used), and \<open>percent_displacement * L / 100\<close>
  otherwise, where \<open>L\<close> is the full span \<open>ymax - ymin\<close> for the mechanism types HERDS
  and KRESLING and the inner span \<open>ymax_2nd - ymin_2nd\<close> for every other type. Stated
  for \<open>get_displacement\<close>, for both dispatchers with any constraint maps (the driven
  group receives the driven map at that displacement), and for each of the ten entry
  points as the exact commands it issues.
\<close>

theorem displacement_applied:
  assumes "find_bounds kps = Inr b"
  shows "let L = (if mech_type = ''HERDS'' \<or> mech_type = ''KRESLING''
                  then ymax b - ymin b else ymax_2nd b - ymin_2nd b);
             d = (case fixed_displacement of
                    Some v \<Rightarrow> v
                  | None \<Rightarrow> percent_displacement * L / 100);
             pre = [Slashsolu, Antype ''STATIC''] @
                   (if fixed_displacement = None then [Allsel] else []);
             st = Seltol (1 / 10 ^ 8);
             zeroN = [D ''ALL'' ''UX'' 0, D ''ALL'' ''UY'' 0, D ''ALL'' ''UZ'' 0];
             zeroA = [Da ''ALL'' ''UX'' 0, Da ''ALL'' ''UY'' 0, Da ''ALL'' ''UZ'' 0];
             rotN = [D ''ALL'' ''ROTX'' 0, D ''ALL'' ''ROTY'' 0, D ''ALL'' ''ROTZ'' 0];
             rotA = [Da ''ALL'' ''ROTX'' 0, Da ''ALL'' ''ROTY'' 0, Da ''ALL'' ''ROTZ'' 0];
             fixed_lo = [st, Nsel ''S'' ''LOC'' ''Y'' (ymin b) (ymin b), Cm ''fixed'' ''NODE''];
             fixed_hi = [st, Nsel ''S'' ''LOC'' ''Y'' (ymax b) (ymax b), Cm ''fixed'' ''NODE''];
             fixed_area = [Asel ''S'' ''LOC'' ''Y'' (ymin b) (ymin_2nd b), Cm ''fixed'' ''AREA''];
             driven_hi = [st, Nsel ''S'' ''LOC'' ''Y'' (ymax b) (ymax b), Cm ''driven'' ''NODE''];
             driven_lo_x = [st, Nsel ''S'' ''LOC'' ''X'' (xmax b) (xmax b),
                            Nsel ''R'' ''LOC'' ''Y'' (ymin b) (ymin b), Cm ''driven'' ''NODE''];
             driven_hi_x = [st, Nsel ''S'' ''LOC'' ''X'' (xmax b) (xmax b),
                            Nsel ''R'' ''LOC'' ''Y'' (ymax b) (ymax b), Cm ''driven'' ''NODE''];
             driven_area = [Asel ''S'' ''LOC'' ''Y'' (ymax_2nd b) (ymax b), Cm ''driven'' ''AREA''];
             driven_span = [st, Nsel ''S'' ''LOC'' ''Y'' (ymax_2nd b) (ymax b),
                            Cm ''driven'' ''NODE'']
         in get_displacement kps mech_type percent_displacement =
              Inr ([Allsel], percent_displacement * L / 100) \<and>
            apply_boundary_conditions kps mech_type percent_displacement fixed_displacement
                boundary_type driven_constraints fixed_constraints =
              Inr (pre @
                   (if boundary_type = ''compression'' \<or> boundary_type = ''tension'' \<or>
                       boundary_type = ''torsion''
                    then fixed_lo @ apply_constraints D fixed_constraints @
                         driven_hi @ apply_constraints D (driven_constraints d)
                    else if boundary_type = ''cant_x'' \<or> boundary_type = ''cant_z''
                    then fixed_hi @ apply_constraints D fixed_constraints @
                         driven_lo_x @ apply_constraints D (driven_constraints d)
                    else []) @
                   [Allsel]) \<and>
            apply_boundary_conditions_areas kps mech_type percent_displacement fixed_displacement
                boundary_type driven_constraints fixed_constraints =
              Inr (pre @
                   (if boundary_type = ''compression'' \<or> boundary_type = ''tension''
                    then fixed_area @ apply_constraints Da fixed_constraints @
                         driven_area @ apply_constraints Da (driven_constraints d)
                    else if boundary_type = ''cant_x'' \<or> boundary_type = ''cant_z''
                    then fixed_area @ apply_constraints Da fixed_constraints @
                         driven_hi_x @ apply_constraints D (driven_constraints d)
                    else if boundary_type = ''torsion''
                    then fixed_area @ apply_constraints Da fixed_constraints @
                         driven_span @ apply_constraints D (driven_constraints d)
                    else []) @
                   [Allsel]) \<and>
            compression_kres kps mech_type percent_displacement fixed_displacement =
              Inr (pre @ fixed_lo @ zeroN @ driven_hi @
                   [D ''ALL'' ''UX'' 0, D ''ALL'' ''UY'' (- d), D ''ALL'' ''UZ'' 0, Allsel]) \<and>
            tension_kres kps mech_type percent_displacement fixed_displacement =
              Inr (pre @ fixed_lo @ zeroN @ driven_hi @
                   [D ''ALL'' ''UX'' 0, D ''ALL'' ''UY'' d, D ''ALL'' ''UZ'' 0, Allsel]) \<and>
            cant_x_kres kps mech_type percent_displacement fixed_displacement =
              Inr (pre @ fixed_hi @ zeroN @ driven_lo_x @
                   [D ''ALL'' ''UX'' (- d), D ''ALL'' ''UZ'' 0, Allsel]) \<and>
            cant_z_kres kps mech_type percent_displacement fixed_displacement =
              Inr (pre @ fixed_hi @ zeroN @ driven_lo_x @
                   [D ''ALL'' ''UZ'' (- d), D ''ALL'' ''UX'' 0, Allsel]) \<and>
            torsion_kres kps mech_type percent_displacement fixed_displacement =
              Inr (pre @ fixed_lo @ zeroN @ rotN @ driven_hi @
                   [D ''ALL'' ''UX'' 0, D ''ALL'' ''UY'' 0, D ''ALL'' ''UZ'' 0,
                    D ''ALL'' ''ROTX'' 0, D ''ALL'' ''ROTY'' d, D ''ALL'' ''ROTZ'' 0, Allsel]) \<and>
            compression kps mech_type percent_displacement fixed_displacement =
              Inr (pre @ fixed_area @ zeroA @ driven_area @
                   [Da ''ALL'' ''UX'' 0, Da ''ALL'' ''UY'' (- d), Da ''ALL'' ''UZ'' 0, Allsel]) \<and>
            tension kps mech_type percent_displacement fixed_displacement =
              Inr (pre @ fixed_area @ zeroA @ driven_area @
                   [Da ''ALL'' ''UX'' 0, Da ''ALL'' ''UY'' d, Da ''ALL'' ''UZ'' 0, Allsel]) \<and>
            cant_x kps mech_type percent_displacement fixed_displacement =
              Inr (pre @ fixed_area @ zeroA @ driven_hi_x @
                   [D ''ALL'' ''UX'' (- d), D ''ALL'' ''UZ'' 0, Allsel]) \<and>
            cant_z kps mech_type percent_displacement fixed_displacement =
              Inr (pre @ fixed_area @ zeroA @ driven_hi_x @
                   [D ''ALL'' ''UZ'' (- d), D ''ALL'' ''UX'' 0, Allsel]) \<and>
            torsion kps mech_type percent_displacement fixed_displacement =
              Inr (pre @ fixed_area @ zeroA @ rotA @ driven_span @
                   [D ''ALL'' ''UX'' 0, D ''ALL'' ''UY'' 0, D ''ALL'' ''UZ'' 0,
                    D ''ALL'' ''ROTX'' 0, D ''ALL'' ''ROTY'' d, D ''ALL'' ''ROTZ'' 0, Allsel])"
proof -
  have generic:
    "apply_boundary_conditions kps mech_type percent_displacement fixed_displacement bt dc fc =
       Inr ([Slashsolu, Antype ''STATIC''] @
            (if fixed_displacement = None then [Allsel] else []) @
            (if bt = ''compression'' \<or> bt = ''tension'' \<or> bt = ''torsion''
             then [Seltol (1 / 10 ^ 8), Nsel ''S'' ''LOC'' ''Y'' (ymin b) (ymin b),
                   Cm ''fixed'' ''NODE''] @ apply_constraints D fc @
                  [Seltol (1 / 10 ^ 8), Nsel ''S'' ''LOC'' ''Y'' (ymax b) (ymax b),
                   Cm ''driven'' ''NODE''] @
                  apply_constraints D
                    (dc (case fixed_displacement of
                           Some v \<Rightarrow> v
                         | None \<Rightarrow>
                             percent_displacement *
                             (if mech_type = ''HERDS'' \<or> mech_type = ''KRESLING''
                              then ymax b - ymin b else ymax_2nd b - ymin_2nd b) / 100))
             else if bt = ''cant_x'' \<or> bt = ''cant_z''
             then [Seltol (1 / 10 ^ 8), Nsel ''S'' ''LOC'' ''Y'' (ymax b) (ymax b),
                   Cm ''fixed'' ''NODE''] @ apply_constraints D fc @
                  [Seltol (1 / 10 ^ 8), Nsel ''S'' ''LOC'' ''X'' (xmax b) (xmax b),
                   Nsel ''R'' ''LOC'' ''Y'' (ymin b) (ymin b), Cm ''driven'' ''NODE''] @
                  apply_constraints D
                    (dc (case fixed_displacement of
                           Some v \<Rightarrow> v
                         | None \<Rightarrow>
                             percent_displacement *
                             (if mech_type = ''HERDS'' \<or> mech_type = ''KRESLING''
                              then ymax b - ymin b else ymax_2nd b - ymin_2nd b) / 100))
             else []) @
            [Allsel])" for bt dc fc
    using assms
    by (simp add: get_displacement_def apply_boundary_conditions_def select_and_fix_nodes_def
        Let_def mult.commute split: option.split)
  have generic_areas:
    "apply_boundary_conditions_areas kps mech_type percent_displacement fixed_displacement
         bt dc fc =
       Inr ([Slashsolu, Antype ''STATIC''] @
            (if fixed_displacement = None then [Allsel] else []) @
            (if bt = ''compression'' \<or> bt = ''tension''
             then [Asel ''S'' ''LOC'' ''Y'' (ymin b) (ymin_2nd b), Cm ''fixed'' ''AREA''] @
                  apply_constraints Da fc @
                  [Asel ''S'' ''LOC'' ''Y'' (ymax_2nd b) (ymax b), Cm ''driven'' ''AREA''] @
                  apply_constraints Da
                    (dc (case fixed_displacement of
                           Some v \<Rightarrow> v
                         | None \<Rightarrow>
                             percent_displacement *
                             (if mech_type = ''HERDS'' \<or> mech_type = ''KRESLING''
                              then ymax b - ymin b else ymax_2nd b - ymin_2nd b) / 100))
             else if bt = ''cant_x'' \<or> bt = ''cant_z''
             then [Asel ''S'' ''LOC'' ''Y'' (ymin b) (ymin_2nd b), Cm ''fixed'' ''AREA''] @
                  apply_constraints Da fc @
                  [Seltol (1 / 10 ^ 8), Nsel ''S'' ''LOC'' ''X'' (xmax b) (xmax b),
                   Nsel ''R'' ''LOC'' ''Y'' (ymax b) (ymax b), Cm ''driven'' ''NODE''] @
                  apply_constraints D
                    (dc (case fixed_displacement of
                           Some v \<Rightarrow> v
                         | None \<Rightarrow>
                             percent_displacement *
                             (if mech_type = ''HERDS'' \<or> mech_type = ''KRESLING''
                              then ymax b - ymin b else ymax_2nd b - ymin_2nd b) / 100))
             else if bt = ''torsion''
             then [Asel ''S'' ''LOC'' ''Y'' (ymin b) (ymin_2nd b), Cm ''fixed'' ''AREA''] @
                  apply_constraints Da fc @
                  [Seltol (1 / 10 ^ 8), Nsel ''S'' ''LOC'' ''Y'' (ymax_2nd b) (ymax b),
                   Cm ''driven'' ''NODE''] @
                  apply_constraints D
                    (dc (case fixed_displacement of
                           Some v \<Rightarrow> v
                         | None \<Rightarrow>
                             percent_displacement *
                             (if mech_type = ''HERDS'' \<or> mech_type = ''KRESLING''
                              then ymax b - ymin b else ymax_2nd b - ymin_2nd b) / 100))
             else []) @
            [Allsel])" for bt dc fc
    using assms
    by (simp add: get_displacement_def apply_boundary_conditions_areas_def
        select_and_fix_nodes_def select_and_fix_areas_def Let_def mult.commute
        split: option.split)
  have gd: "get_displacement kps mech_type percent_displacement =
      Inr ([Allsel],
           percent_displacement *
           (if mech_type = ''HERDS'' \<or> mech_type = ''KRESLING''
            then ymax b - ymin b else ymax_2nd b - ymin_2nd b) / 100)"
    using assms by (simp add: get_displacement_def Let_def mult.commute)
  show ?thesis
    unfolding Let_def compression_kres_def tension_kres_def cant_x_kres_def cant_z_kres_def
      torsion_kres_def compression_def tension_def cant_x_def cant_z_def torsion_def
      generic generic_areas gd
    by (simp add: apply_constraints_def default_fixed_constraints_def)
qed

theorem displacement_applied_witness:
  "get_displacement [(0, 0, 0), (1, 1, 0), (1, 3, 0), (2, 4, 0)] ''HERDS'' 50 = Inr ([Allsel], 2) \<and>
   get_displacement [(0, 0, 0), (1, 1, 0), (1, 3, 0), (2, 4, 0)] ''PET'' 50 = Inr ([Allsel], 1) \<and>
   cant_x [(0, 0, 0), (1, 1, 0), (1, 3, 0), (2, 4, 0)] ''PET'' 50 None =
     Inr [Slashsolu, Antype ''STATIC'', Allsel,
          Asel ''S'' ''LOC'' ''Y'' 0 1, Cm ''fixed'' ''AREA'',
          Da ''ALL'' ''UX'' 0, Da ''ALL'' ''UY'' 0, Da ''ALL'' ''UZ'' 0,
          Seltol (1 / 10 ^ 8), Nsel ''S'' ''LOC'' ''X'' 2 2, Nsel ''R'' ''LOC'' ''Y'' 4 4,
          Cm ''driven'' ''NODE'', D ''ALL'' ''UX'' (- 1), D ''ALL'' ''UZ'' 0, Allsel] \<and>
   torsion_kres [(0, 0, 0), (1, 1, 0), (1, 3, 0), (2, 4, 0)] ''KRESLING'' 50 (Some 7) =
     Inr [Slashsolu, Antype ''STATIC'',
          Seltol (1 / 10 ^ 8), Nsel ''S'' ''LOC'' ''Y'' 0 0, Cm ''fixed'' ''NODE'',
          D ''ALL'' ''UX'' 0, D ''ALL'' ''UY'' 0, D ''ALL'' ''UZ'' 0,
          D ''ALL'' ''ROTX'' 0, D ''ALL'' ''ROTY'' 0, D ''ALL'' ''ROTZ'' 0,
          Seltol (1 / 10 ^ 8), Nsel ''S'' ''LOC'' ''Y'' 4 4, Cm ''driven'' ''NODE'',
          D ''ALL'' ''UX'' 0, D ''ALL'' ''UY'' 0, D ''ALL'' ''UZ'' 0,
          D ''ALL'' ''ROTX'' 0, D ''ALL'' ''ROTY'' 7, D ''ALL'' ''ROTZ'' 0, Allsel] \<and>
   apply_boundary_conditions [(0, 0, 0), (1, 1, 0), (1, 3, 0), (2, 4, 0)] ''HERDS'' 50 None
       ''tension'' (\<lambda>d. [(''UY'', d)]) [] =
     Inr [Slashsolu, Antype ''STATIC'', Allsel,
          Seltol (1 / 10 ^ 8), Nsel ''S'' ''LOC'' ''Y'' 0 0, Cm ''fixed'' ''NODE'',
          Seltol (1 / 10 ^ 8), Nsel ''S'' ''LOC'' ''Y'' 4 4, Cm ''driven'' ''NODE'',
          D ''ALL'' ''UY'' 2, Allsel]"
  using displacement_applied [OF find_bounds_four_levels, where mech_type = "''HERDS''"
        and fixed_displacement = None and percent_displacement = 50
        and boundary_type = "''tension''" and driven_constraints = "\<lambda>d. [(''UY'', d)]"
        and fixed_constraints = "[]"]
    displacement_applied [OF find_bounds_four_levels, where mech_type = "''PET''"
        and fixed_displacement = None and percent_displacement = 50]
    displacement_applied [OF find_bounds_four_levels, where mech_type = "''KRESLING''"
        and fixed_displacement = "Some 7" and percent_displacement = 50]
  by (simp add: Let_def apply_constraints_def)

text \<open>
  C2, as the claim states it, fails for the node-based entry point: \<open>cant_z_kres\<close>
  reselects the driven group at \<open>Y = ymin\<close> (here 0), not at \<open>Y = ymax\<close> (here 4), the
  end it has just fixed.
\<close>

theorem cant_z_kres_driven_counterexample:
  "find_bounds [(0, 0, 0), (1, 1, 0), (1, 3, 0), (2, 4, 0)] =
     Inr \<lparr>xmin = 0, xmax = 2, ymin = 0, ymax = 4, zmin = 0, zmax = 0,
          ymin_2nd = 1, ymax_2nd = 3\<rparr> \<and>
   cant_z_kres [(0, 0, 0), (1, 1, 0), (1, 3, 0), (2, 4, 0)] ''KRESLING'' 50 None =
     Inr [Slashsolu, Antype ''STATIC'', Allsel,
          Seltol (1 / 10 ^ 8), Nsel ''S'' ''LOC'' ''Y'' 4 4, Cm ''fixed'' ''NODE'',
          D ''ALL'' ''UX'' 0, D ''ALL'' ''UY'' 0, D ''ALL'' ''UZ'' 0,
          Seltol (1 / 10 ^ 8), Nsel ''S'' ''LOC'' ''X'' 2 2, Nsel ''R'' ''LOC'' ''Y'' 0 0,
          Cm ''driven'' ''NODE'', D ''ALL'' ''UZ'' (- 2), D ''ALL'' ''UX'' 0, Allsel] \<and>
   cant_z_kres [(0, 0, 0), (1, 1, 0), (1, 3, 0), (2, 4, 0)] ''KRESLING'' 50 None \<noteq>
     Inr [Slashsolu, Antype ''STATIC'', Allsel,
          Seltol (1 / 10 ^ 8), Nsel ''S'' ''LOC'' ''Y'' 4 4, Cm ''fixed'' ''NODE'',
          D ''ALL'' ''UX'' 0, D ''ALL'' ''UY'' 0, D ''ALL'' ''UZ'' 0,
          Seltol (1 / 10 ^ 8), Nsel ''S'' ''LOC'' ''X'' 2 2, Nsel ''R'' ''LOC'' ''Y'' 4 4,
          Cm ''driven'' ''NODE'', D ''ALL'' ''UZ'' (- 2), D ''ALL'' ''UX'' 0, Allsel]"
  by (simp add: find_bounds_four_levels cant_z_kres_def get_displacement_def
      apply_boundary_conditions_def select_and_fix_nodes_def apply_constraints_def
      default_fixed_constraints_def)

text \<open>
  C2, amended. In the cantilever-Z mode the node-based entry point \<open>cant_z_kres\<close> fixes
  the nodes at \<open>Y = ymax\<close> and drives the nodes at \<open>Y = ymin\<close> restricted to
  \<open>X = xmax\<close>; the area-based entry point \<open>cant_z\<close> fixes the areas in the range
  \<open>ymin .. ymin_2nd\<close> and drives the nodes at \<open>Y = ymax\<close> restricted to \<open>X = xmax\<close>.
  Both apply \<open>UZ = -d\<close> and \<open>UX = 0\<close> to the driven group, \<open>d\<close> being the computed
  displacement.
\<close>

theorem cant_z_groups:
  assumes "find_bounds kps = Inr b"
  shows "let d = (case fixed_displacement of
                    Some v \<Rightarrow> v
                  | None \<Rightarrow>
                      percent_displacement *
                      (if mech_type = ''HERDS'' \<or> mech_type = ''KRESLING''
                       then ymax b - ymin b else ymax_2nd b - ymin_2nd b) / 100);
             pre = [Slashsolu, Antype ''STATIC''] @
                   (if fixed_displacement = None then [Allsel] else [])
         in cant_z_kres kps mech_type percent_displacement fixed_displacement =
              Inr (pre @
                   [Seltol (1 / 10 ^ 8),
                    Nsel ''S'' ''LOC'' ''Y'' (ymax b) (ymax b),
                    Cm ''fixed'' ''NODE'',
                    D ''ALL'' ''UX'' 0, D ''ALL'' ''UY'' 0, D ''ALL'' ''UZ'' 0,
                    Seltol (1 / 10 ^ 8),
                    Nsel ''S'' ''LOC'' ''X'' (xmax b) (xmax b),
                    Nsel ''R'' ''LOC'' ''Y'' (ymin b) (ymin b),
                    Cm ''driven'' ''NODE'',
                    D ''ALL'' ''UZ'' (- d), D ''ALL'' ''UX'' 0,
                    Allsel]) \<and>
            cant_z kps mech_type percent_displacement fixed_displacement =
              Inr (pre @
                   [Asel ''S'' ''LOC'' ''Y'' (ymin b) (ymin_2nd b),
                    Cm ''fixed'' ''AREA'',
                    Da ''ALL'' ''UX'' 0, Da ''ALL'' ''UY'' 0, Da ''ALL'' ''UZ'' 0,
                    Seltol (1 / 10 ^ 8),
                    Nsel ''S'' ''LOC'' ''X'' (xmax b) (xmax b),
                    Nsel ''R'' ''LOC'' ''Y'' (ymax b) (ymax b),
                    Cm ''driven'' ''NODE'',
                    D ''ALL'' ''UZ'' (- d), D ''ALL'' ''UX'' 0,
                    Allsel])"
  using assms
  by (simp add: cant_z_kres_def cant_z_def get_displacement_def apply_boundary_conditions_def
      apply_boundary_conditions_areas_def select_and_fix_nodes_def select_and_fix_areas_def
      apply_constraints_def default_fixed_constraints_def Let_def mult.commute
      split: option.split)

theorem cant_z_groups_witness:
  "cant_z_kres [(0, 0, 0), (1, 1, 0), (1, 3, 0), (2, 4, 0)] ''PET'' 50 (Some 7) =
     Inr [Slashsolu, Antype ''STATIC'',
          Seltol (1 / 10 ^ 8), Nsel ''S'' ''LOC'' ''Y'' 4 4, Cm ''fixed'' ''NODE'',
          D ''ALL'' ''UX'' 0, D ''ALL'' ''UY'' 0, D ''ALL'' ''UZ'' 0,
          Seltol (1 / 10 ^ 8), Nsel ''S'' ''LOC'' ''X'' 2 2, Nsel ''R'' ''LOC'' ''Y'' 0 0,
          Cm ''driven'' ''NODE'', D ''ALL'' ''UZ'' (- 7), D ''ALL'' ''UX'' 0, Allsel] \<and>
   cant_z [(0, 0, 0), (1, 1, 0), (1, 3, 0), (2, 4, 0)] ''PET'' 50 None =
     Inr [Slashsolu, Antype ''STATIC'', Allsel,
          Asel ''S'' ''LOC'' ''Y'' 0 1, Cm ''fixed'' ''AREA'',
          Da ''ALL'' ''UX'' 0, Da ''ALL'' ''UY'' 0, Da ''ALL'' ''UZ'' 0,
          Seltol (1 / 10 ^ 8), Nsel ''S'' ''LOC'' ''X'' 2 2, Nsel ''R'' ''LOC'' ''Y'' 4 4,
          Cm ''driven'' ''NODE'', D ''ALL'' ''UZ'' (- 1), D ''ALL'' ''UX'' 0, Allsel]"
  using cant_z_groups [OF find_bounds_four_levels, where mech_type = "''PET''"
      and fixed_displacement = "Some 7" and percent_displacement = 50]
    cant_z_groups [OF find_bounds_four_levels, where mech_type = "''PET''"
      and fixed_displacement = None and percent_displacement = 50]
  by (simp add: Let_def)

text \<open>
  C8. For the same inputs, compression and tension issue the same commands (the same
  fixed and driven selections, the same fixed constraints) up to the driven group's
  \<open>UY\<close> constraint, which is \<open>-d\<close> for compression and \<open>+d\<close> for tension; this holds
  for the node-based and for the area-based pair of entry points.
\<close>

theorem compression_tension_opposite:
  assumes "find_bounds kps = Inr b"
  shows "let d = (case fixed_displacement of
                    Some v \<Rightarrow> v
                  | None \<Rightarrow>
                      percent_displacement *
                      (if mech_type = ''HERDS'' \<or> mech_type = ''KRESLING''
                       then ymax b - ymin b else ymax_2nd b - ymin_2nd b) / 100);
             pre = [Slashsolu, Antype ''STATIC''] @
                   (if fixed_displacement = None then [Allsel] else []);
             nodes = [Seltol (1 / 10 ^ 8), Nsel ''S'' ''LOC'' ''Y'' (ymin b) (ymin b),
                      Cm ''fixed'' ''NODE'',
                      D ''ALL'' ''UX'' 0, D ''ALL'' ''UY'' 0, D ''ALL'' ''UZ'' 0,
                      Seltol (1 / 10 ^ 8), Nsel ''S'' ''LOC'' ''Y'' (ymax b) (ymax b),
                      Cm ''driven'' ''NODE''];
             areas = [Asel ''S'' ''LOC'' ''Y'' (ymin b) (ymin_2nd b),
                      Cm ''fixed'' ''AREA'',
                      Da ''ALL'' ''UX'' 0, Da ''ALL'' ''UY'' 0, Da ''ALL'' ''UZ'' 0,
                      Asel ''S'' ''LOC'' ''Y'' (ymax_2nd b) (ymax b),
                      Cm ''driven'' ''AREA'']
         in compression_kres kps mech_type percent_displacement fixed_displacement =
              Inr (pre @ nodes @
                   [D ''ALL'' ''UX'' 0, D ''ALL'' ''UY'' (- d), D ''ALL'' ''UZ'' 0, Allsel]) \<and>
            tension_kres kps mech_type percent_displacement fixed_displacement =
              Inr (pre @ nodes @
                   [D ''ALL'' ''UX'' 0, D ''ALL'' ''UY'' d, D ''ALL'' ''UZ'' 0, Allsel]) \<and>
            compression kps mech_type percent_displacement fixed_displacement =
              Inr (pre @ areas @
                   [Da ''ALL'' ''UX'' 0, Da ''ALL'' ''UY'' (- d), Da ''ALL'' ''UZ'' 0, Allsel]) \<and>
            tension kps mech_type percent_displacement fixed_displacement =
              Inr (pre @ areas @
                   [Da ''ALL'' ''UX'' 0, Da ''ALL'' ''UY'' d, Da ''ALL'' ''UZ'' 0, Allsel])"
  using assms
  by (simp add: compression_kres_def tension_kres_def compression_def tension_def
      get_displacement_def apply_boundary_conditions_def
      apply_boundary_conditions_areas_def select_and_fix_nodes_def select_and_fix_areas_def
      apply_constraints_def default_fixed_constraints_def Let_def mult.commute
      split: option.split)

theorem compression_tension_opposite_witness:
  "compression_kres [(0, 0, 0), (1, 1, 0), (1, 3, 0), (2, 4, 0)] ''PET'' 50 None =
     Inr [Slashsolu, Antype ''STATIC'', Allsel,
          Seltol (1 / 10 ^ 8), Nsel ''S'' ''LOC'' ''Y'' 0 0, Cm ''fixed'' ''NODE'',
          D ''ALL'' ''UX'' 0, D ''ALL'' ''UY'' 0, D ''ALL'' ''UZ'' 0,
          Seltol (1 / 10 ^ 8), Nsel ''S'' ''LOC'' ''Y'' 4 4, Cm ''driven'' ''NODE'',
          D ''ALL'' ''UX'' 0, D ''ALL'' ''UY'' (- 1), D ''ALL'' ''UZ'' 0, Allsel] \<and>
   tension_kres [(0, 0, 0), (1, 1, 0), (1, 3, 0), (2, 4, 0)] ''PET'' 50 None =
     Inr [Slashsolu, Antype ''STATIC'', Allsel,
          Seltol (1 / 10 ^ 8), Nsel ''S'' ''LOC'' ''Y'' 0 0, Cm ''fixed'' ''NODE'',
          D ''ALL'' ''UX'' 0, D ''ALL'' ''UY'' 0, D ''ALL'' ''UZ'' 0,
          Seltol (1 / 10 ^ 8), Nsel ''S'' ''LOC'' ''Y'' 4 4, Cm ''driven'' ''NODE'',
          D ''ALL'' ''UX'' 0, D ''ALL'' ''UY'' 1, D ''ALL'' ''UZ'' 0, Allsel] \<and>
   compression [(0, 0, 0), (1, 1, 0), (1, 3, 0), (2, 4, 0)] ''PET'' 50 None =
     Inr [Slashsolu, Antype ''STATIC'', Allsel,
          Asel ''S'' ''LOC'' ''Y'' 0 1, Cm ''fixed'' ''AREA'',
          Da ''ALL'' ''UX'' 0, Da ''ALL'' ''UY'' 0, Da ''ALL'' ''UZ'' 0,
          Asel ''S'' ''LOC'' ''Y'' 3 4, Cm ''driven'' ''AREA'',
          Da ''ALL'' ''UX'' 0, Da ''ALL'' ''UY'' (- 1), Da ''ALL'' ''UZ'' 0, Allsel] \<and>
   tension [(0, 0, 0), (1, 1, 0), (1, 3, 0), (2, 4, 0)] ''PET'' 50 None =
     Inr [Slashsolu, Antype ''STATIC'', Allsel,
          Asel ''S'' ''LOC'' ''Y'' 0 1, Cm ''fixed'' ''AREA'',
          Da ''ALL'' ''UX'' 0, Da ''ALL'' ''UY'' 0, Da ''ALL'' ''UZ'' 0,
          Asel ''S'' ''LOC'' ''Y'' 3 4, Cm ''driven'' ''AREA'',
          Da ''ALL'' ''UX'' 0, Da ''ALL'' ''UY'' 1, Da ''ALL'' ''UZ'' 0, Allsel]"
  using compression_tension_opposite [OF find_bounds_four_levels, where mech_type = "''PET''"
      and fixed_displacement = None and percent_displacement = 50]
  by (simp add: Let_def)

section \<open>Claims about post-processing\<close>

text \<open>
  C4. When the solve has not converged, \<open>post_process\<close> writes the result file with
  exactly one row, whose six force and moment fields are \<open>nan\<close> and whose Displacement
  and L fields are numbers (the displacement applied and the reference length), and
  returns \<open>False\<close>.
\<close>

theorem post_process_not_converged:
  assumes "find_bounds kps = Inr b"
  shows "let L = (if mech_type = ''KRESLING'' \<or> mech_type = ''HERDS''
                  then ymax b - ymin b else ymax_2nd b - ymin_2nd b);
             d = (case fixed_displacement of
                    Some v \<Rightarrow> v
                  | None \<Rightarrow> percent_displacement * L / 100)
         in post_process kps False fsum fs percent_displacement filename displacement_type
              mech_type fixed_displacement =
            Inr ((if fixed_displacement = None then [Allsel] else []) @
                 [Post1, Set_cmd ''LAST'', Cmsel ''S'' ''driven''],
                 fs(filename \<mapsto>
                    ([''Displacement'', ''FX'', ''FY'', ''FZ'', ''MX'', ''MY'', ''MZ'', ''L''],
                     [[Num d, NaN, NaN, NaN, NaN, NaN, NaN, Num L]])),
                 False)"
  using assms
  by (auto simp add: post_process_def get_displacement_def write_to_csv_def Let_def mult.commute
      split: option.split)

theorem post_process_not_converged_witness:
  "post_process [(0, 0, 0), (1, 1, 0), (1, 3, 0), (2, 4, 0)] False (\<lambda>_. 0) Map.empty 50
       ''out.csv'' ''cant_x'' ''PET'' None =
     Inr ([Allsel, Post1, Set_cmd ''LAST'', Cmsel ''S'' ''driven''],
          [''out.csv'' \<mapsto>
             ([''Displacement'', ''FX'', ''FY'', ''FZ'', ''MX'', ''MY'', ''MZ'', ''L''],
              [[Num 1, NaN, NaN, NaN, NaN, NaN, NaN, Num 2]])],
          False)"
  using post_process_not_converged [OF find_bounds_four_levels, where mech_type = "''PET''"
      and fixed_displacement = None and percent_displacement = 50 and fs = Map.empty
      and filename = "''out.csv''" and displacement_type = "''cant_x''" and fsum = "\<lambda>_. 0"]
  by (simp add: Let_def)

section \<open>Claims about the end blocks\<close>

text \<open>
  C9. When the Z-extent is zero (\<open>zmax = zmin\<close>), \<open>create_blocks_from_points\<close> replaces
  the depth by 3: from the first two points in X order it issues one block of depth 3
  and its mirror image of depth -3, and nothing else. So no block that
  \<open>process_pet_scissor\<close> issues for a planar model has the zero extent as its depth.
\<close>

theorem zero_extent_depth:
  "create_blocks_from_points points z z =
     (case sort_key px points of
        p1 # p2 # rest \<Rightarrow>
          (let h = (if \<bar>py p2 - py p1\<bar> = 0 then 3 else \<bar>py p2 - py p1\<bar>);
               direction = (if py p1 < 0 then - 1 else 1)
           in [Blc4 (px p1) (min (py p1) (py p2)) (px p2 - px p1) (direction * h) 3,
               Blc4 (px p1) (min (py p1) (py p2)) (px p2 - px p1) (direction * h) (- 3)])
      | _ \<Rightarrow> []) \<and>
   (\<forall>x y w h dp. Blc4 x y w h dp \<in> set (process_pet_scissor argsort kps mech_type ymin' ymax' z z) \<longrightarrow>
      dp = 3 \<or> dp = - 3)"
proof
  show "create_blocks_from_points points z z =
     (case sort_key px points of
        p1 # p2 # rest \<Rightarrow>
          (let h = (if \<bar>py p2 - py p1\<bar> = 0 then 3 else \<bar>py p2 - py p1\<bar>);
               direction = (if py p1 < 0 then - 1 else 1)
           in [Blc4 (px p1) (min (py p1) (py p2)) (px p2 - px p1) (direction * h) 3,
               Blc4 (px p1) (min (py p1) (py p2)) (px p2 - px p1) (direction * h) (- 3)])
      | _ \<Rightarrow> [])"
    by (simp add: create_blocks_from_points_def Let_def split: list.split)
  show "\<forall>x y w h dp. Blc4 x y w h dp \<in> set (process_pet_scissor argsort kps mech_type ymin' ymax' z z) \<longrightarrow>
      dp = 3 \<or> dp = - 3"
    using blocks_loop_Blc4 [where zmax' = z and zmin' = z]
    by (fastforce simp add: process_pet_scissor_def create_blocks_from_points_def
        split: prod.splits)
qed

theorem zero_extent_depth_witness:
  "create_blocks_from_points [(2, 5, 0), (0, 5, 0), (1, 7, 0)] 0 0 =
     [Blc4 0 5 1 2 3, Blc4 0 5 1 2 (- 3)] \<and>
   create_blocks_from_points [(2, - 5, 0), (0, - 5, 0)] 4 4 =
     [Blc4 0 (- 5) 2 (- 3) 3, Blc4 0 (- 5) 2 (- 3) (- 3)]"
  using zero_extent_depth [of "[(2, 5, 0), (0, 5, 0), (1, 7, 0)]" 0]
    zero_extent_depth [of "[(2, - 5, 0), (0, - 5, 0)]" 4]
  by (simp add: px_def py_def Let_def)

section \<open>Claims about the endpoint clusters\<close>

text \<open>
  C6. For every keypoint table, and whatever order numpy's \<open>argsort\<close> gives its rows,
  each of the two lists \<open>find_endpoints\<close> returns has its points pairwise farther than
  \<open>1e-6\<close> apart, and holds at most 5 (min side) and 3 (max side) points for PET and at
  most 2 and 2 for SCISSOR, however many candidates the table offers.
\<close>

theorem endpoint_clusters:
  "(mech_type = ''PET'' \<longrightarrow>
      length (fst (find_endpoints argsort kps mech_type)) \<le> 5 \<and>
      length (snd (find_endpoints argsort kps mech_type)) \<le> 3) \<and>
   (mech_type = ''SCISSOR'' \<longrightarrow>
      length (fst (find_endpoints argsort kps mech_type)) \<le> 2 \<and>
      length (snd (find_endpoints argsort kps mech_type)) \<le> 2) \<and>
   (\<forall>i<length (fst (find_endpoints argsort kps mech_type)).
      \<forall>j<length (fst (find_endpoints argsort kps mech_type)). i \<noteq> j \<longrightarrow>
        1 / 10 ^ 6 < np_linalg_norm (point_sub (fst (find_endpoints argsort kps mech_type) ! i)
                                              (fst (find_endpoints argsort kps mech_type) ! j))) \<and>
   (\<forall>i<length (snd (find_endpoints argsort kps mech_type)).
      \<forall>j<length (snd (find_endpoints argsort kps mech_type)). i \<noteq> j \<longrightarrow>
        1 / 10 ^ 6 < np_linalg_norm (point_sub (snd (find_endpoints argsort kps mech_type) ! i)
                                              (snd (find_endpoints argsort kps mech_type) ! j)))"
proof -
  have len: "length (unique_points_loop xs [] (int n)) \<le> n" for xs n
    using unique_points_loop_length [of xs "[]" "int n"] by simp
  have far: "\<forall>i<length (unique_points_loop xs [] k). \<forall>j<length (unique_points_loop xs [] k).
           i \<noteq> j \<longrightarrow>
             1 / 10 ^ 6 < np_linalg_norm (point_sub (unique_points_loop xs [] k ! i)
                                                   (unique_points_loop xs [] k ! j))" for xs k
    by (rule unique_points_loop_far) simp
  show ?thesis
    using len [of _ 5] len [of _ 3] len [of _ 2] far
    by (simp add: find_endpoints_def select_unique_points_def Let_def)
qed

theorem endpoint_clusters_witness:
  "find_endpoints (\<lambda>ys. [0 ..< length ys]) [(0, 0, 0), (0, 0, 0), (1, 1, 0), (2, 5, 0)]
       ''SCISSOR'' =
     ([(0, 0, 0), (1, 1, 0)], [(2, 5, 0), (1, 1, 0)]) \<and>
   length (fst (find_endpoints (\<lambda>ys. [0 ..< length ys])
                  [(0, 0, 0), (0, 0, 0), (1, 1, 0), (2, 5, 0)] ''SCISSOR'')) \<le> 2 \<and>
   length (snd (find_endpoints (\<lambda>ys. [0 ..< length ys])
                  [(0, 0, 0), (0, 0, 0), (1, 1, 0), (2, 5, 0)] ''SCISSOR'')) \<le> 2 \<and>
   find_endpoints (\<lambda>ys. [6, 1, 2, 3, 4, 5, 0])
       [(0, 6, 0), (0, 1, 0), (0, 2, 0), (0, 3, 0), (0, 4, 0), (0, 5, 0), (0, 0, 0)] ''PET'' =
     ([(0, 0, 0), (0, 1, 0), (0, 2, 0), (0, 3, 0), (0, 4, 0)],
      [(0, 6, 0), (0, 5, 0), (0, 4, 0)])"
proof -
  have idx: "[0 ..< 4] = [0, 1, 2, 3 :: nat]"
    by (simp add: upt_conv_Cons)
  have scissor: "find_endpoints (\<lambda>ys. [0 ..< length ys])
       [(0, 0, 0), (0, 0, 0), (1, 1, 0), (2, 5, 0)] ''SCISSOR'' =
     ([(0, 0, 0), (1, 1, 0)], [(2, 5, 0), (1, 1, 0)])"
    by (simp add: find_endpoints_def select_unique_points_def far_iff_normal np_min_def
        point_sub_def px_def py_def pz_def idx)
  have pet: "find_endpoints (\<lambda>ys. [6, 1, 2, 3, 4, 5, 0])
       [(0, 6, 0), (0, 1, 0), (0, 2, 0), (0, 3, 0), (0, 4, 0), (0, 5, 0), (0, 0, 0)] ''PET'' =
     ([(0, 0, 0), (0, 1, 0), (0, 2, 0), (0, 3, 0), (0, 4, 0)],
      [(0, 6, 0), (0, 5, 0), (0, 4, 0)])"
    by (simp add: find_endpoints_def select_unique_points_def far_iff_normal np_min_def
        point_sub_def px_def py_def pz_def)
  have len: "length (fst (find_endpoints (\<lambda>ys. [0 ..< length ys])
                  [(0, 0, 0), (0, 0, 0), (1, 1, 0), (2, 5, 0)] ''SCISSOR'')) \<le> 2 \<and>
     length (snd (find_endpoints (\<lambda>ys. [0 ..< length ys])
                  [(0, 0, 0), (0, 0, 0), (1, 1, 0), (2, 5, 0)] ''SCISSOR'')) \<le> 2"
    using endpoint_clusters [of "''SCISSOR''" "\<lambda>ys. [0 ..< length ys]"
        "[(0, 0, 0), (0, 0, 0), (1, 1, 0), (2, 5, 0)]"]
    by blast
  show ?thesis
    using scissor pet len by blast
qed

section \<open>Claims about the cross-section profiles\<close>

text \<open>
  C3. The claim asks for one profile per distinct (width, height) pair and for each
  member to be given the profile of its own pair. The loader does neither. It builds
  the profiles from the separately de-duplicated width and height columns and gives
  every line section 1. On a table of two members with the cross sections (1, 1) and
  (1, 2), two distinct pairs, it creates the single profile (1, 1) and assigns it to
  both members; on a table with the cross sections (1, 1) and (2, 1), again two
  distinct pairs, it stops with \<open>IndexError\<close>.
\<close>

theorem profiles_failing_input:
  "get_beam_model_new \<lparr>left_line_ids = [], left_end = 0, right_line_ids = [], right_end = 0\<rparr>
     (\<lambda>ys. [0 ..< length ys]) [(0, 0, 0), (1, 1, 0), (2, 0, 0)]
     [\<lparr>x1 = 0, y1 = 0, z1 = 0, x2 = 1, y2 = 1, z2 = 0, width = 1, height = 1\<rparr>,
      \<lparr>x1 = 1, y1 = 1, z1 = 0, x2 = 2, y2 = 0, z2 = 0, width = 1, height = 2\<rparr>]
     ''BEAM188'' 10 3 1 1 False ''HERDS'' =
   Inr [Sectype 1 ''BEAM'' ''RECT'', Secdata 1 1 3 3,
        Et 1 ''BEAM188'' [0, 0, 3],
        Input_strings [K 1 0 0 0, K 3 1 1 0, K 2 1 1 0, K 4 2 0 0, L 1 2, L 3 4],
        Lsel1 ''ALL'', Latt 1 1 1, Lesize ''ALL'' 10, Lmesh ''ALL'',
        Nsel1 ''ALL'', Nummrg ''NODE'', Nummrg ''KP'', Endrelease] \<and>
   card {(width \<lparr>x1 = 0, y1 = 0, z1 = 0, x2 = 1, y2 = 1, z2 = 0, width = 1, height = 1\<rparr>,
          height \<lparr>x1 = 0, y1 = 0, z1 = 0, x2 = 1, y2 = 1, z2 = 0, width = 1, height = 1\<rparr>),
         (width \<lparr>x1 = 1, y1 = 1, z1 = 0, x2 = 2, y2 = 0, z2 = 0, width = 1, height = 2\<rparr>,
          height \<lparr>x1 = 1, y1 = 1, z1 = 0, x2 = 2, y2 = 0, z2 = 0, width = 1,
                   height = 2 :: real\<rparr>)} = 2 \<and>
   get_beam_model_new \<lparr>left_line_ids = [], left_end = 0, right_line_ids = [], right_end = 0\<rparr>
     (\<lambda>ys. [0 ..< length ys]) [(0, 0, 0), (1, 1, 0), (2, 0, 0)]
     [\<lparr>x1 = 0, y1 = 0, z1 = 0, x2 = 1, y2 = 1, z2 = 0, width = 1, height = 1\<rparr>,
      \<lparr>x1 = 1, y1 = 1, z1 = 0, x2 = 2, y2 = 0, z2 = 0, width = 2, height = 1\<rparr>]
     ''BEAM188'' 10 3 1 1 False ''HERDS'' = Inl IndexError"
  by (simp add: get_beam_model_new_def Let_def unique_def cross_section_types_def load_csv_def
      find_bounds_three_keypoints)

section \<open>Claims about the timeout\<close>

text \<open>
  C5. When the worker of a case is still alive after the timed join, that is when it
  has run past the timeout, \<open>run_simulation_with_timeout\<close> terminates the worker, does
  not read the queue, makes no call that writes a record, and returns \<open>None\<close>; it has
  no branch that raises. The sweep calls it with the default timeout of 1800 seconds
  and, after such a case, goes on with the remaining files of the folder.
\<close>

theorem timeout_yields_none:
  "run_simulation_with_timeout True queued simulation_vars timeout =
     ([Queue_new, Process_new simulation_vars, P_start, P_join (Some timeout), P_is_alive,
       P_terminate, P_join None, Print ''Simulation terminated due to timeout.'',
       Queue_close, Queue_join_thread, Gc_collect],
      Returned None) \<and>
   (\<not> sublist ''mass'' filename \<longrightarrow>
      (let args = simulation_args(''filename'' \<mapsto> VStr filename,
                                  ''folder_path'' \<mapsto> VStr folder_path,
                                  ''mech_type'' \<mapsto> VStr mech_type)
       in sweep_files folder_path mech_type ((filename, True, queued) # filenames)
            simulation_args =
          (Print filename #
           [Queue_new, Process_new args, P_start, P_join (Some 1800), P_is_alive,
            P_terminate, P_join None, Print ''Simulation terminated due to timeout.'',
            Queue_close, Queue_join_thread, Gc_collect] @
           fst (sweep_files folder_path mech_type filenames args),
           snd (sweep_files folder_path mech_type filenames args))))"
  by (simp add: run_simulation_with_timeout_def Let_def split: prod.split)

theorem timeout_yields_none_witness:
  "sweep_files ''d'' ''PET'' [(''a.csv'', True, None), (''b.csv'', False, Some True)] Map.empty =
     ([Print ''a.csv'',
       Queue_new,
       Process_new [''filename'' \<mapsto> VStr ''a.csv'', ''folder_path'' \<mapsto> VStr ''d'',
                    ''mech_type'' \<mapsto> VStr ''PET''],
       P_start, P_join (Some 1800), P_is_alive,
       P_terminate, P_join None, Print ''Simulation terminated due to timeout.'',
       Queue_close, Queue_join_thread, Gc_collect,
       Print ''b.csv'',
       Queue_new,
       Process_new [''filename'' \<mapsto> VStr ''b.csv'', ''folder_path'' \<mapsto> VStr ''d'',
                    ''mech_type'' \<mapsto> VStr ''PET''],
       P_start, P_join (Some 1800), P_is_alive,
       Queue_get, Queue_close, Queue_join_thread, Gc_collect],
      Returned [''filename'' \<mapsto> VStr ''b.csv'', ''folder_path'' \<mapsto> VStr ''d'',
                ''mech_type'' \<mapsto> VStr ''PET''])"
proof -
  have a: "\<not> sublist ''mass'' ''a.csv''" and b: "\<not> sublist ''mass'' ''b.csv''"
    by (simp_all add: sublist_code prefix_code)
  have rest: "sweep_files ''d'' ''PET'' [(''b.csv'', False, Some True)]
       [''filename'' \<mapsto> VStr ''a.csv'', ''folder_path'' \<mapsto> VStr ''d'',
        ''mech_type'' \<mapsto> VStr ''PET''] =
     ([Print ''b.csv'',
       Queue_new,
       Process_new [''filename'' \<mapsto> VStr ''b.csv'', ''folder_path'' \<mapsto> VStr ''d'',
                    ''mech_type'' \<mapsto> VStr ''PET''],
       P_start, P_join (Some 1800), P_is_alive,
       Queue_get, Queue_close, Queue_join_thread, Gc_collect],
      Returned [''filename'' \<mapsto> VStr ''b.csv'', ''folder_path'' \<mapsto> VStr ''d'',
                ''mech_type'' \<mapsto> VStr ''PET''])"
    using b by (simp add: run_simulation_with_timeout_def Let_def fun_upd_twist)
  have step: "sweep_files ''d'' ''PET'' [(''a.csv'', True, None), (''b.csv'', False, Some True)]
       Map.empty =
     (Print ''a.csv'' #
      [Queue_new,
       Process_new [''filename'' \<mapsto> VStr ''a.csv'', ''folder_path'' \<mapsto> VStr ''d'',
                    ''mech_type'' \<mapsto> VStr ''PET''],
       P_start, P_join (Some 1800), P_is_alive,
       P_terminate, P_join None, Print ''Simulation terminated due to timeout.'',
       Queue_close, Queue_join_thread, Gc_collect] @
      fst (sweep_files ''d'' ''PET'' [(''b.csv'', False, Some True)]
             [''filename'' \<mapsto> VStr ''a.csv'', ''folder_path'' \<mapsto> VStr ''d'',
              ''mech_type'' \<mapsto> VStr ''PET'']),
      snd (sweep_files ''d'' ''PET'' [(''b.csv'', False, Some True)]
             [''filename'' \<mapsto> VStr ''a.csv'', ''folder_path'' \<mapsto> VStr ''d'',
              ''mech_type'' \<mapsto> VStr ''PET'']))"
    using timeout_yields_none [where filename = "''a.csv''" and queued = None
        and folder_path = "''d''" and mech_type = "''PET''" and simulation_args = Map.empty
        and filenames = "[(''b.csv'', False, Some True)]", THEN conjunct2, rule_format, OF a,
        unfolded Let_def] .
  show ?thesis
    unfolding step rest by simp
qed

end
